theory Spec2Isabelle
  imports Main "HOL-Library.Sublist"
begin

section \<open>Data model of plugins/modules/host.py\<close>

text \<open>
  The module reconciles a host (initiator group) of a PowerStore array with the
  playbook's parameters. Python values are modelled as follows: an optional parameter is
  an \<open>option\<close> (\<open>None\<close> is Python's \<open>None\<close>), a parameter with two or three fixed
  choices is a datatype, every other string is a \<open>string\<close>, a dictionary with fixed keys
  is a record.
\<close>

datatype port_type = ISCSI | FC | NVMe
  \<comment> \<open>\<open>PORT_TYPES = ["iSCSI", "FC", "NVMe"]\<close>, used by index in the script\<close>

datatype desired_state = Present | Absent
  \<comment> \<open>parameter \<open>state\<close>, choices \<open>present\<close> and \<open>absent\<close>\<close>

datatype initiator_state = Present_in_host | Absent_in_host
  \<comment> \<open>parameter \<open>initiator_state\<close>, choices \<open>present-in-host\<close> and \<open>absent-in-host\<close>\<close>

text \<open>The four CHAP keys of an initiator dictionary.\<close>

record chap_creds =
  chap_single_username :: "string option"
  chap_single_password :: "string option"
  chap_mutual_username :: "string option"
  chap_mutual_password :: "string option"

text \<open>
  An element of parameter \<open>detailed_initiators\<close>: the argument spec gives it the keys
  \<open>port_name\<close> (required), \<open>port_type\<close> and the four CHAP keys, each \<open>None\<close> when the
  playbook leaves it out.
\<close>

record detailed_initiator =
  port_name :: string
  port_type :: "port_type option"
  chap :: chap_creds

text \<open>
  An initiator dictionary as the module sends it to the array. \<open>req_chap\<close> is \<open>None\<close>
  when the dictionary has no CHAP keys at all, and \<open>Some c\<close> when it has the four
  keys (whose values may themselves be \<open>None\<close>).
\<close>

record init_req =
  req_port_name :: string
  req_port_type :: port_type
  req_chap :: "chap_creds option"

text \<open>The host as the array reports it; the module reads these keys only.\<close>

record host_initiator =
  hi_port_name :: string
  hi_port_type :: port_type

record host =
  h_id :: string
  h_name :: string
  h_os_type :: string
  h_host_initiators :: "host_initiator list"
  h_host_connectivity :: string

text \<open>\<open>self.module.params\<close>, as \<open>get_powerstore_host_parameters\<close> declares them.\<close>

record params =
  host_name :: "string option"
  host_id :: "string option"
  os_type :: "string option"
  initiators :: "string list option"
  detailed_initiators :: "detailed_initiator list option"
  state :: desired_state
  initiator_state :: "initiator_state option"
  new_name :: "string option"
  host_connectivity :: "string option"

section \<open>The array, an external collaborator\<close>

text \<open>
  \<open>self.conn.provisioning\<close> is the client of the array. The module calls five of its
  operations: two reads (\<open>get_host_by_name\<close>, \<open>get_host_details\<close>) and three
  mutations (\<open>create_host\<close>, \<open>modify_host\<close>, \<open>delete_host\<close>). Nothing is assumed
  about what the array does with a request: it is any deterministic function of the
  mutation requests it has received so far. \<open>requests\<close> is that history, oldest first;
  a request is recorded when the module sends it, whether or not the array accepts it.
\<close>

datatype request =
    Create_host string string "init_req list" "string option"
    \<comment> \<open>\<open>create_host(name, os_type, initiators, host_connectivity)\<close>\<close>
  | Modify_host string "init_req list option" "string list option" "string option" "string option"
    \<comment> \<open>\<open>modify_host(host_id, add_initiators, remove_initiators, name, host_connectivity)\<close>,
        a keyword argument that is not passed being \<open>None\<close>\<close>
  | Delete_host string
    \<comment> \<open>\<open>delete_host(host_id)\<close>\<close>

datatype remote_exc = Http_404 | Other_failure
  \<comment> \<open>an exception of the client: a \<open>PowerStoreException\<close> with HTTP status 404, or any other\<close>

record array =
  requests :: "request list"
  answer_by_name :: "request list \<Rightarrow> string \<Rightarrow> remote_exc + host list"
  answer_details :: "request list \<Rightarrow> string option \<Rightarrow> remote_exc + host option"
  refuses :: "request list \<Rightarrow> request \<Rightarrow> remote_exc option"

definition conn_get_host_by_name :: "array \<Rightarrow> string \<Rightarrow> remote_exc + host list" where
  "conn_get_host_by_name a n = answer_by_name a (requests a) n"

definition conn_get_host_details :: "array \<Rightarrow> string option \<Rightarrow> remote_exc + host option" where
  "conn_get_host_details a i = answer_details a (requests a) i"

definition send :: "request \<Rightarrow> array \<Rightarrow> remote_exc option \<times> array" where
  "send q a = (refuses a (requests a) q, a\<lparr>requests := requests a @ [q]\<rparr>)"

section \<open>Failures of the module\<close>

text \<open>
  Every failure of the module is a call of \<open>fail_json\<close>, which ends the process, or an
  uncaught Python exception. The constructors are named after the taxonomy of the
  specification; the comment gives the message of the source.
\<close>

datatype operation = Op_get | Op_lookup | Op_create | Op_add | Op_remove | Op_modify | Op_delete

datatype error =
    ConfigurationError
    \<comment> \<open>"initiators or detailed_initiators are mandatory along with initiator_state",
        "initiator_state is mandatory along with initiators or detailed_initiators",
        "new_name is given for a host that doesnt exist",
        "Incorrect initiator_state specified for Create host functionality",
        "Create host failed as os_type is not specified"\<close>
  | ValidationError port_type
    \<comment> \<open>"CHAP authentication is not supported for FC (NVMe) initiator type."\<close>
  | ProtocolMixError
    \<comment> \<open>"Invalid initiators. Cannot add IQN, WWN and NQN as part of host."\<close>
  | AmbiguousNameError
    \<comment> \<open>"Multiple hosts by the same name found"\<close>
  | ImmutableFieldError
    \<comment> \<open>"os_type cannot be modified for an already existing host."\<close>
  | RemoteOperationError operation
    \<comment> \<open>the \<open>except Exception\<close> handler of the operation called \<open>fail_json\<close>\<close>
  | PythonTypeError
    \<comment> \<open>an exception outside every handler: subscripting \<open>None\<close>\<close>

section \<open>Python primitives\<close>

definition startswith :: "string \<Rightarrow> string \<Rightarrow> bool" where
  "startswith s p = (take (length p) s = p)"

text \<open>Truth value of an optional string or list: \<open>None\<close> and the empty value are false.\<close>

definition truthy :: "'a list option \<Rightarrow> bool" where
  "truthy v = (case v of None \<Rightarrow> False | Some xs \<Rightarrow> xs \<noteq> [])"

text \<open>
  \<open>list(set(xs))\<close>: Python fixes no order for the elements of a set. The model lists them
  in the order of their last occurrence in \<open>xs\<close>; the theorems below speak of the set of
  the result only.
\<close>

definition list_of_set :: "string list \<Rightarrow> string list" where
  "list_of_set xs = remdups xs"

section \<open>The operations of class PowerStoreHost\<close>

definition get_host :: "array \<Rightarrow> string option \<Rightarrow> error + host option" where
  "get_host a hid =
     (case conn_get_host_details a hid of
        Inl e \<Rightarrow> Inl (RemoteOperationError Op_get)
      | Inr host_from_get \<Rightarrow> Inr host_from_get)"

definition get_host_id_by_name :: "array \<Rightarrow> string \<Rightarrow> error + string option" where
  "get_host_id_by_name a hname =
     (case conn_get_host_by_name a hname of
        Inl Http_404 \<Rightarrow> Inr None
      | Inl Other_failure \<Rightarrow> Inl (RemoteOperationError Op_lookup)
      | Inr [] \<Rightarrow> Inr None
      | Inr [h] \<Rightarrow> Inr (Some (h_id h))
      | Inr (h # h' # hs) \<Rightarrow> Inl AmbiguousNameError)"

text \<open>
  \<open>create_host\<close>. With parameter \<open>initiators\<close> the module builds one dictionary for
  each identifier and refuses a list that has all three port types; with
  \<open>detailed_initiators\<close> it fills in the port types that are \<open>None\<close> and sends the
  dictionaries as they are. Iterating over \<open>detailed_initiators = None\<close> raises inside the
  \<open>try\<close> block.
\<close>

definition create_host :: "params \<Rightarrow> string \<Rightarrow> array \<Rightarrow> (error + bool) \<times> array" where
  "create_host p hname a =
     (case os_type p of
        None \<Rightarrow> (Inl ConfigurationError, a)
      | Some os \<Rightarrow>
          if truthy (initiators p) then
            (let inits = (case initiators p of Some xs \<Rightarrow> xs | None \<Rightarrow> []);
                 list_of_initiators =
                   map (\<lambda>initiator.
                          if startswith initiator ''iqn''
                          then \<lparr>req_port_name = initiator, req_port_type = ISCSI, req_chap = None\<rparr>
                          else if startswith initiator ''nqn''
                          then \<lparr>req_port_name = initiator, req_port_type = NVMe, req_chap = None\<rparr>
                          else \<lparr>req_port_name = initiator, req_port_type = FC, req_chap = None\<rparr>)
                       inits;
                 initiator_type =
                   map (\<lambda>initiator.
                          if startswith initiator ''iqn'' then ISCSI
                          else if startswith initiator ''nqn'' then NVMe
                          else FC)
                       inits
             in if ISCSI \<in> set initiator_type \<and> FC \<in> set initiator_type
                   \<and> NVMe \<in> set initiator_type
                then (Inl ProtocolMixError, a)
                else (case send (Create_host hname os list_of_initiators (host_connectivity p)) a of
                        (Some e, a') \<Rightarrow> (Inl (RemoteOperationError Op_create), a')
                      | (None, a') \<Rightarrow> (Inr True, a')))
          else
            (case detailed_initiators p of
               None \<Rightarrow> (Inl (RemoteOperationError Op_create), a)
             | Some ds \<Rightarrow>
                 (let sent =
                        map (\<lambda>initiator.
                               \<lparr>req_port_name = port_name initiator,
                                req_port_type =
                                  (case port_type initiator of
                                     Some t \<Rightarrow> t
                                   | None \<Rightarrow>
                                       if startswith (port_name initiator) ''iqn'' then ISCSI
                                       else if startswith (port_name initiator) ''nqn'' then NVMe
                                       else FC),
                                req_chap = Some (chap initiator)\<rparr>)
                            ds
                  in case send (Create_host hname os sent (host_connectivity p)) a of
                       (Some e, a') \<Rightarrow> (Inl (RemoteOperationError Op_create), a')
                     | (None, a') \<Rightarrow> (Inr True, a'))))"

definition get_add_initiators :: "string list \<Rightarrow> string list \<Rightarrow> string list" where
  "get_add_initiators existing requested =
     (let all_inits = existing @ requested
      in filter (\<lambda>x. x \<notin> set existing) (list_of_set all_inits))"

definition get_remove_initiators :: "string list \<Rightarrow> string list \<Rightarrow> string list" where
  "get_remove_initiators existing requested =
     filter (\<lambda>x. x \<in> set requested) (list_of_set existing)"

text \<open>
  Lines 574 to 613 of \<open>add_host_initiators\<close>: the loop that turns \<open>add_list\<close> into
  the dictionaries to send. With \<open>detailed_initiators\<close>, every dictionary whose
  \<open>port_name\<close> is the name to add yields one entry, so a name given twice is sent twice.
\<close>

definition add_list_with_type ::
  "detailed_initiator list option \<Rightarrow> string list \<Rightarrow> init_req list" where
  "add_list_with_type detailed add_list =
     concat (map (\<lambda>init.
       if truthy detailed then
         map (\<lambda>detailed_init.
                if startswith init ''iqn''
                then \<lparr>req_port_name = init, req_port_type = ISCSI,
                      req_chap = Some (chap detailed_init)\<rparr>
                else if startswith init ''nqn''
                then \<lparr>req_port_name = init, req_port_type = NVMe, req_chap = None\<rparr>
                else \<lparr>req_port_name = init, req_port_type = FC, req_chap = None\<rparr>)
             (filter (\<lambda>detailed_init. init = port_name detailed_init)
                (case detailed of Some ds \<Rightarrow> ds | None \<Rightarrow> []))
       else
         [if startswith init ''iqn''
          then \<lparr>req_port_name = init, req_port_type = ISCSI, req_chap = None\<rparr>
          else if startswith init ''nqn''
          then \<lparr>req_port_name = init, req_port_type = NVMe, req_chap = None\<rparr>
          else \<lparr>req_port_name = init, req_port_type = FC, req_chap = None\<rparr>])
       add_list)"

text \<open>
  \<open>add_host_initiators\<close>. \<open>existing + requested\<close> with \<open>requested = None\<close> raises inside
  the \<open>try\<close> block.
\<close>

definition add_host_initiators :: "params \<Rightarrow> host \<Rightarrow> array \<Rightarrow> (error + bool) \<times> array" where
  "add_host_initiators p h a =
     (let existing_inits = map hi_port_name (h_host_initiators h)
      in if truthy (initiators p)
            \<and> set (case initiators p of Some xs \<Rightarrow> xs | None \<Rightarrow> []) \<subseteq> set existing_inits
         then (Inr False, a)
         else
           (let initiator_list =
                  (case detailed_initiators p of None \<Rightarrow> [] | Some ds \<Rightarrow> map port_name ds)
            in if truthy (detailed_initiators p) \<and> set initiator_list \<subseteq> set existing_inits
               then (Inr False, a)
               else
                 (case (if truthy (detailed_initiators p) then Some initiator_list
                        else initiators p) of
                    None \<Rightarrow> (Inl (RemoteOperationError Op_add), a)
                  | Some inits \<Rightarrow>
                      (let add_list = get_add_initiators existing_inits inits;
                           to_send = add_list_with_type (detailed_initiators p) add_list
                       in if length to_send > 0
                          then (case send (Modify_host (h_id h) (Some to_send)
                                             None None None) a of
                                  (Some e, a') \<Rightarrow> (Inl (RemoteOperationError Op_add), a')
                                | (None, a') \<Rightarrow> (Inr True, a'))
                          else (Inr False, a)))))"

text \<open>
  \<open>remove_host_initiators\<close>. \<open>set(requested)\<close> with \<open>requested = None\<close> raises inside
  the \<open>try\<close> block.
\<close>

definition remove_host_initiators :: "params \<Rightarrow> host \<Rightarrow> array \<Rightarrow> (error + bool) \<times> array" where
  "remove_host_initiators p h a =
     (let existing_inits = map hi_port_name (h_host_initiators h)
      in if length existing_inits = 0 then (Inr False, a)
         else
           (case (if truthy (detailed_initiators p)
                  then Some (map port_name
                               (case detailed_initiators p of Some ds \<Rightarrow> ds | None \<Rightarrow> []))
                  else initiators p) of
              None \<Rightarrow> (Inl (RemoteOperationError Op_remove), a)
            | Some inits \<Rightarrow>
                (let remove_list = get_remove_initiators existing_inits inits
                 in if length remove_list > 0
                    then (case send (Modify_host (h_id h) None (Some remove_list) None None) a of
                            (Some e, a') \<Rightarrow> (Inl (RemoteOperationError Op_remove), a')
                          | (None, a') \<Rightarrow> (Inr True, a'))
                    else (Inr False, a))))"

definition update_host ::
  "host \<Rightarrow> string option \<Rightarrow> string option \<Rightarrow> array \<Rightarrow> (error + bool) \<times> array" where
  "update_host h nname conn a =
     (case send (Modify_host (h_id h) None None nname conn) a of
        (Some e, a') \<Rightarrow> (Inl (RemoteOperationError Op_modify), a')
      | (None, a') \<Rightarrow> (Inr True, a'))"

definition delete_host :: "host \<Rightarrow> array \<Rightarrow> (error + bool) \<times> array" where
  "delete_host h a =
     (case send (Delete_host (h_id h)) a of
        (Some e, a') \<Rightarrow> (Inl (RemoteOperationError Op_delete), a')
      | (None, a') \<Rightarrow> (Inr True, a'))"

text \<open>\<open>validate_initiators\<close>: the loop stops at the first initiator it refuses.\<close>

fun validate_initiators :: "detailed_initiator list \<Rightarrow> error + unit" where
  "validate_initiators [] = Inr ()"
| "validate_initiators (initiator # rest) =
     (if truthy (chap_single_username (chap initiator))
         \<or> truthy (chap_mutual_username (chap initiator))
      then (if port_type initiator = Some FC then Inl (ValidationError FC)
            else if port_type initiator = Some NVMe then Inl (ValidationError NVMe)
            else validate_initiators rest)
      else validate_initiators rest)"

text \<open>
  \<open>self.result\<close>: \<open>host_details\<close> is the empty dictionary, or whatever \<open>get_host\<close>
  returned (a host, or \<open>None\<close>).
\<close>

datatype details = Empty_record | Details "host option"

record result =
  changed :: bool
  host_details :: details

definition create_result_dict :: "params \<Rightarrow> bool \<Rightarrow> string option \<Rightarrow> array \<Rightarrow> error + result" where
  "create_result_dict p chg hid a =
     (if state p = Absent then Inr \<lparr>changed = chg, host_details = Empty_record\<rparr>
      else (case get_host a hid of
              Inl e \<Rightarrow> Inl e
            | Inr h \<Rightarrow> Inr \<lparr>changed = chg, host_details = Details h\<rparr>))"

definition is_modify_required :: "host \<Rightarrow> string option \<Rightarrow> string option \<Rightarrow> bool" where
  "is_modify_required h nname conn =
     (let modify_flag = False;
          modify_flag = (if nname \<noteq> None \<and> Some (h_name h) \<noteq> nname then True else modify_flag);
          modify_flag = (if conn \<noteq> None \<and> Some (h_host_connectivity h) \<noteq> conn
                         then True else modify_flag)
      in modify_flag)"

section \<open>perform_module_operation\<close>

text \<open>
  The steps of a pass that can set \<open>changed\<close>. The source keeps the running value of
  \<open>changed\<close> only; the model also keeps \<open>p_trace\<close>, the steps that ran, in order, each
  with the flag it returned. The trace is read by the theorems and never by the code.
\<close>

datatype step = Step_create | Step_add | Step_remove | Step_modify | Step_delete

record pass =
  p_changed :: bool
  p_host_id :: "string option"
  p_trace :: "(step \<times> bool) list"

text \<open>Sequencing: a failure ends the pass with the array as the failed step left it.\<close>

definition and_then ::
  "(array \<Rightarrow> (error + 'a) \<times> array) \<Rightarrow> ('a \<Rightarrow> array \<Rightarrow> (error + 'b) \<times> array)
     \<Rightarrow> array \<Rightarrow> (error + 'b) \<times> array" where
  "and_then m f a = (case m a of (Inl e, a') \<Rightarrow> (Inl e, a') | (Inr x, a') \<Rightarrow> f x a')"

text \<open>
  Lines 736 to 742: the identity of the host. The result is \<open>(host_id, host, host_name)\<close>
  as the rest of the pass reads them. \<open>host['name']\<close> with \<open>host = None\<close> is outside
  every \<open>try\<close> block.
\<close>

definition resolve_identity ::
  "params \<Rightarrow> array \<Rightarrow> error + (string option \<times> host option \<times> string option)" where
  "resolve_identity p a =
     (case (case host_name p of
              Some n \<Rightarrow> if n \<noteq> [] then get_host_id_by_name a n else Inr (host_id p)
            | None \<Rightarrow> Inr (host_id p)) of
        Inl e \<Rightarrow> Inl e
      | Inr hid \<Rightarrow>
          if truthy hid then
            (case get_host a hid of
               Inl e \<Rightarrow> Inl e
             | Inr None \<Rightarrow> Inl PythonTypeError
             | Inr (Some h) \<Rightarrow> Inr (hid, Some h, Some (h_name h)))
          else Inr (hid, None, host_name p))"

text \<open>Lines 745 to 762: the checks on the parameters, and the validation of CHAP.\<close>

definition precondition_checks :: "params \<Rightarrow> error + unit" where
  "precondition_checks p =
     (if initiator_state p \<noteq> None
         \<and> ((initiators p = None \<or> length (case initiators p of Some xs \<Rightarrow> xs | None \<Rightarrow> []) = 0)
            \<and> (detailed_initiators p = None
               \<or> length (case detailed_initiators p of Some ds \<Rightarrow> ds | None \<Rightarrow> []) = 0))
      then Inl ConfigurationError
      else if (truthy (initiators p) \<or> truthy (detailed_initiators p)) \<and> initiator_state p = None
      then Inl ConfigurationError
      else if truthy (detailed_initiators p) \<and> initiator_state p \<noteq> None
      then validate_initiators (case detailed_initiators p of Some ds \<Rightarrow> ds | None \<Rightarrow> [])
      else Inr ())"

text \<open>Lines 764 to 779: creation. \<open>host\<close> is not fetched again after it.\<close>

definition create_block ::
  "params \<Rightarrow> host option \<Rightarrow> string option \<Rightarrow> pass \<Rightarrow> array \<Rightarrow> (error + pass) \<times> array" where
  "create_block p hst hname s a =
     (case hname of
        Some n \<Rightarrow>
          if state p = Present \<and> hst = None \<and> n \<noteq> [] then
            (if truthy (new_name p) then (Inl ConfigurationError, a)
             else if initiator_state p \<noteq> Some Present_in_host then (Inl ConfigurationError, a)
             else
               (case create_host p n a of
                  (Inl e, a') \<Rightarrow> (Inl e, a')
                | (Inr c, a') \<Rightarrow>
                    if c then
                      (case get_host_id_by_name a' n of
                         Inl e \<Rightarrow> (Inl e, a')
                       | Inr hid \<Rightarrow>
                           (Inr (s\<lparr>p_changed := c, p_host_id := hid,
                                    p_trace := p_trace s @ [(Step_create, c)]\<rparr>), a'))
                    else (Inr (s\<lparr>p_changed := c,
                                   p_trace := p_trace s @ [(Step_create, c)]\<rparr>), a')))
          else (Inr s, a)
      | None \<Rightarrow> (Inr s, a))"

text \<open>Lines 781 to 785: the operating system of an existing host cannot change.\<close>

definition os_type_check :: "params \<Rightarrow> host option \<Rightarrow> error + unit" where
  "os_type_check p hst =
     (case hst of
        Some h \<Rightarrow>
          if truthy (os_type p) \<and> os_type p \<noteq> Some (h_os_type h) then Inl ImmutableFieldError
          else Inr ()
      | None \<Rightarrow> Inr ())"

text \<open>Lines 787 to 791.\<close>

definition add_block ::
  "params \<Rightarrow> host option \<Rightarrow> pass \<Rightarrow> array \<Rightarrow> (error + pass) \<times> array" where
  "add_block p hst s a =
     (case hst of
        Some h \<Rightarrow>
          if state p = Present \<and> initiator_state p = Some Present_in_host
             \<and> (truthy (initiators p) \<or> truthy (detailed_initiators p))
          then (case add_host_initiators p h a of
                  (Inl e, a') \<Rightarrow> (Inl e, a')
                | (Inr c, a') \<Rightarrow>
                    (Inr (s\<lparr>p_changed := (c \<or> p_changed s),
                             p_trace := p_trace s @ [(Step_add, c)]\<rparr>), a'))
          else (Inr s, a)
      | None \<Rightarrow> (Inr s, a))"

text \<open>Lines 793 to 797.\<close>

definition remove_block ::
  "params \<Rightarrow> host option \<Rightarrow> pass \<Rightarrow> array \<Rightarrow> (error + pass) \<times> array" where
  "remove_block p hst s a =
     (case hst of
        Some h \<Rightarrow>
          if state p = Present \<and> initiator_state p = Some Absent_in_host
             \<and> (truthy (initiators p) \<or> truthy (detailed_initiators p))
          then (case remove_host_initiators p h a of
                  (Inl e, a') \<Rightarrow> (Inl e, a')
                | (Inr c, a') \<Rightarrow>
                    (Inr (s\<lparr>p_changed := (c \<or> p_changed s),
                             p_trace := p_trace s @ [(Step_remove, c)]\<rparr>), a'))
          else (Inr s, a)
      | None \<Rightarrow> (Inr s, a))"

text \<open>Lines 799 to 803: here \<open>changed\<close> is assigned, not combined.\<close>

definition modify_block ::
  "params \<Rightarrow> host option \<Rightarrow> pass \<Rightarrow> array \<Rightarrow> (error + pass) \<times> array" where
  "modify_block p hst s a =
     (case hst of
        Some h \<Rightarrow>
          if state p = Present \<and> (truthy (new_name p) \<or> truthy (host_connectivity p))
          then (let modify_flag = is_modify_required h (new_name p) (host_connectivity p)
                in if modify_flag
                   then (case update_host h (new_name p) (host_connectivity p) a of
                           (Inl e, a') \<Rightarrow> (Inl e, a')
                         | (Inr c, a') \<Rightarrow>
                             (Inr (s\<lparr>p_changed := c,
                                      p_trace := p_trace s @ [(Step_modify, c)]\<rparr>), a'))
                   else (Inr s, a))
          else (Inr s, a)
      | None \<Rightarrow> (Inr s, a))"

text \<open>Lines 805 to 807.\<close>

definition delete_block ::
  "params \<Rightarrow> host option \<Rightarrow> pass \<Rightarrow> array \<Rightarrow> (error + pass) \<times> array" where
  "delete_block p hst s a =
     (case hst of
        Some h \<Rightarrow>
          if state p = Absent
          then (case delete_host h a of
                  (Inl e, a') \<Rightarrow> (Inl e, a')
                | (Inr c, a') \<Rightarrow>
                    (Inr (s\<lparr>p_changed := (c \<or> p_changed s),
                             p_trace := p_trace s @ [(Step_delete, c)]\<rparr>), a'))
          else (Inr s, a)
      | None \<Rightarrow> (Inr s, a))"

text \<open>Lines 809 to 812: the result, with the trace of the pass beside it.\<close>

definition finish :: "params \<Rightarrow> pass \<Rightarrow> array \<Rightarrow> (error + result \<times> (step \<times> bool) list) \<times> array" where
  "finish p s a =
     (case create_result_dict p (p_changed s) (p_host_id s) a of
        Inl e \<Rightarrow> (Inl e, a)
      | Inr r \<Rightarrow> (Inr (r, p_trace s), a))"

text \<open>The pass after the identity is resolved: lines 743 to 812, in the order of the source.\<close>

definition reconcile ::
  "params \<Rightarrow> string option \<Rightarrow> host option \<Rightarrow> string option \<Rightarrow> array
     \<Rightarrow> (error + result \<times> (step \<times> bool) list) \<times> array" where
  "reconcile p hid hst hname a =
     (case precondition_checks p of
        Inl e \<Rightarrow> (Inl e, a)
      | Inr u \<Rightarrow>
          and_then (create_block p hst hname \<lparr>p_changed = False, p_host_id = hid, p_trace = []\<rparr>)
            (\<lambda>s1 a1.
               case os_type_check p hst of
                 Inl e \<Rightarrow> (Inl e, a1)
               | Inr u \<Rightarrow>
                   and_then (add_block p hst s1)
                     (\<lambda>s2. and_then (remove_block p hst s2)
                        (\<lambda>s3. and_then (modify_block p hst s3)
                           (\<lambda>s4. and_then (delete_block p hst s4)
                              (\<lambda>s5. finish p s5)))) a1) a)"

definition perform_module_operation ::
  "params \<Rightarrow> array \<Rightarrow> (error + result \<times> (step \<times> bool) list) \<times> array" where
  "perform_module_operation p a =
     (case resolve_identity p a of
        Inl e \<Rightarrow> (Inl e, a)
      | Inr (hid, hst, hname) \<Rightarrow> reconcile p hid hst hname a)"

section \<open>Notions of the specification\<close>

text \<open>
  The classifier as the specification words it: the rules are tried in this order and
  the first match wins; prefix \<open>iqn\<close> gives iSCSI, prefix \<open>nqn\<close> gives NVMe, anything
  else gives FC. The source has no such function: it repeats the test at each site.
\<close>

definition classify :: "string \<Rightarrow> port_type" where
  "classify s = (if prefix ''iqn'' s then ISCSI else if prefix ''nqn'' s then NVMe else FC)"

text \<open>The port names of the initiators the array reports for a host.\<close>

definition existing_names :: "host \<Rightarrow> string list" where
  "existing_names h = map hi_port_name (h_host_initiators h)"

text \<open>The port names the playbook asks for, in whichever of the two forms it gives them.\<close>

definition requested_names :: "params \<Rightarrow> string list" where
  "requested_names p =
     (if truthy (detailed_initiators p)
      then map port_name (case detailed_initiators p of Some ds \<Rightarrow> ds | None \<Rightarrow> [])
      else (case initiators p of Some xs \<Rightarrow> xs | None \<Rightarrow> []))"

text \<open>
  \<open>mutually_exclusive = [..., ['initiators', 'detailed_initiators']]\<close> in the constructor:
  AnsibleModule refuses parameters that give both.
\<close>

definition mutually_exclusive :: "params \<Rightarrow> bool" where
  "mutually_exclusive p = (initiators p = None \<or> detailed_initiators p = None)"

text \<open>The requests a pass or a step has added to the history of the array.\<close>

definition issued :: "array \<Rightarrow> array \<Rightarrow> request list" where
  "issued a a' = drop (length (requests a)) (requests a')"

text \<open>
  The request of the rename and connectivity step for an existing host, if the step
  sends one (lines 799 to 803 with \<open>update_host\<close>).
\<close>

definition rename_requests :: "params \<Rightarrow> host \<Rightarrow> request list" where
  "rename_requests p h =
     (if (truthy (new_name p) \<or> truthy (host_connectivity p))
         \<and> is_modify_required h (new_name p) (host_connectivity p)
      then [Modify_host (h_id h) None None (new_name p) (host_connectivity p)]
      else [])"

text \<open>
  A request of the rename and connectivity step: \<open>modify_host\<close> called with neither
  \<open>add_initiators\<close> nor \<open>remove_initiators\<close> (\<open>update_host\<close>, lines 677 and 678).
\<close>

fun is_rename_request :: "request \<Rightarrow> bool" where
  "is_rename_request (Modify_host i None None n c) = True"
| "is_rename_request q = False"

text \<open>The initiator dictionaries a request carries.\<close>

fun request_initiators :: "request \<Rightarrow> init_req list" where
  "request_initiators (Create_host n os inits c) = inits"
| "request_initiators (Modify_host i (Some inits) r n c) = inits"
| "request_initiators q = []"

section \<open>Example inputs\<close>

text \<open>
  A host \<open>h1\<close> with two iSCSI initiators, and an array that knows it under the name
  \<open>h1\<close> and the id \<open>id1\<close>, accepts every request, and reports a host \<open>h2\<close> once it has
  received a request.
\<close>

definition host1 :: host where
  "host1 = \<lparr>h_id = ''id1'', h_name = ''h1'', h_os_type = ''Windows'',
            h_host_initiators = [\<lparr>hi_port_name = ''iqn.a'', hi_port_type = ISCSI\<rparr>,
                                 \<lparr>hi_port_name = ''iqn.b'', hi_port_type = ISCSI\<rparr>],
            h_host_connectivity = ''Local_Only''\<rparr>"

definition host2 :: host where
  "host2 = \<lparr>h_id = ''id2'', h_name = ''h2'', h_os_type = ''Linux'',
            h_host_initiators = [], h_host_connectivity = ''Local_Only''\<rparr>"

definition example_array :: array where
  "example_array =
     \<lparr>requests = [],
      answer_by_name = (\<lambda>reqs n. if n = ''h1'' then Inr [host1]
                                  else if n = ''h2'' \<and> reqs \<noteq> [] then Inr [host2]
                                  else Inr []),
      answer_details = (\<lambda>reqs i. if i = Some ''id1'' then Inr (Some host1)
                                  else if i = Some ''id2'' \<and> reqs \<noteq> [] then Inr (Some host2)
                                  else Inl Http_404),
      refuses = (\<lambda>reqs q. None)\<rparr>"

text \<open>A playbook task that names host \<open>h1\<close> and gives nothing else.\<close>

definition task_h1 :: params where
  "task_h1 = \<lparr>host_name = Some ''h1'', host_id = None, os_type = None, initiators = None,
               detailed_initiators = None, state = Present, initiator_state = None,
               new_name = None, host_connectivity = None\<rparr>"

section \<open>The initiator set differ\<close>

lemma set_get_add_initiators:
  "set (get_add_initiators existing requested) = set requested - set existing"
  by (auto simp: get_add_initiators_def list_of_set_def)

lemma set_get_remove_initiators:
  "set (get_remove_initiators existing requested) = set existing \<inter> set requested"
  by (auto simp: get_remove_initiators_def list_of_set_def)

text \<open>
  C7: for all lists \<open>existing\<close> and \<open>requested\<close> (every finite set of strings is the set of
  a list), the additions are the set \<open>requested - existing\<close> and the removals are the set
  \<open>existing \<inter> requested\<close>; so the additions are disjoint from \<open>existing\<close>, the removals
  lie in both \<open>existing\<close> and \<open>requested\<close>, nothing is to add when the request is what
  exists, and empty inputs give empty outputs. Neither result lists a name twice.
\<close>

theorem differ_is_difference_and_intersection:
  "set (get_add_initiators existing requested) = set requested - set existing
   \<and> set (get_remove_initiators existing requested) = set existing \<inter> set requested
   \<and> set (get_add_initiators existing requested) \<inter> set existing = {}
   \<and> set (get_remove_initiators existing requested) \<subseteq> set existing
   \<and> set (get_remove_initiators existing requested) \<subseteq> set requested
   \<and> get_add_initiators existing existing = []
   \<and> get_add_initiators existing [] = []
   \<and> get_add_initiators [] [] = []
   \<and> get_remove_initiators existing [] = []
   \<and> get_remove_initiators [] requested = []
   \<and> distinct (get_add_initiators existing requested)
   \<and> distinct (get_remove_initiators existing requested)"
  by (auto simp: get_add_initiators_def get_remove_initiators_def list_of_set_def
        filter_empty_conv)

section \<open>The add-initiators step\<close>

lemma startswith_prefix: "startswith s p = prefix p s"
  unfolding startswith_def
  by (metis append_eq_conv_conj prefix_def)

lemma alwt_simple:
  "\<not> truthy detailed \<Longrightarrow>
   add_list_with_type detailed add_list =
     map (\<lambda>i. \<lparr>req_port_name = i, req_port_type = classify i, req_chap = None\<rparr>) add_list"
  by (induction add_list) (simp_all add: add_list_with_type_def classify_def startswith_prefix)

lemma alwt_names_subset:
  "req_port_name ` set (add_list_with_type detailed add_list) \<subseteq> set add_list"
  by (auto simp: add_list_with_type_def split: if_splits)

lemma alwt_names_detailed:
  assumes "set add_list \<subseteq> port_name ` set ds"
  shows "req_port_name ` set (add_list_with_type (Some ds) add_list) = set add_list"
proof
  show "req_port_name ` set (add_list_with_type (Some ds) add_list) \<subseteq> set add_list"
    by (rule alwt_names_subset)
  show "set add_list \<subseteq> req_port_name ` set (add_list_with_type (Some ds) add_list)"
  proof
    fix x assume x: "x \<in> set add_list"
    then obtain d where d: "d \<in> set ds" "port_name d = x" using assms by auto
    then have tr: "truthy (Some ds)" by (auto simp: truthy_def)
    have flt: "d \<in> set (filter (\<lambda>detailed_init. x = port_name detailed_init) ds)"
      using d by simp
    show "x \<in> req_port_name ` set (add_list_with_type (Some ds) add_list)"
    proof (cases "startswith x ''iqn''")
      case True
      have "\<lparr>req_port_name = x, req_port_type = ISCSI, req_chap = Some (chap d)\<rparr>
              \<in> set (add_list_with_type (Some ds) add_list)"
        unfolding add_list_with_type_def using x flt tr True by (simp add: image_iff) blast
      then show ?thesis by force
    next
      case False
      note notiqn = False
      show ?thesis
      proof (cases "startswith x ''nqn''")
        case True
        have "\<lparr>req_port_name = x, req_port_type = NVMe, req_chap = None\<rparr>
                \<in> set (add_list_with_type (Some ds) add_list)"
          unfolding add_list_with_type_def using x flt tr True notiqn by (simp add: image_iff) blast
        then show ?thesis by force
      next
        case False
        have "\<lparr>req_port_name = x, req_port_type = FC, req_chap = None\<rparr>
                \<in> set (add_list_with_type (Some ds) add_list)"
          unfolding add_list_with_type_def using x flt tr False notiqn by (simp add: image_iff) blast
        then show ?thesis by force
      qed
    qed
  qed
qed

lemma alwt_names_requested:
  assumes "set add_list \<subseteq> set (requested_names p)"
  shows "req_port_name ` set (add_list_with_type (detailed_initiators p) add_list) = set add_list"
proof (cases "truthy (detailed_initiators p)")
  case True
  then obtain ds where ds: "detailed_initiators p = Some ds" by (auto simp: truthy_def split: option.splits)
  with True assms have "set add_list \<subseteq> port_name ` set ds" by (simp add: requested_names_def)
  then show ?thesis using ds by (simp add: alwt_names_detailed)
next
  case False
  then show ?thesis by (simp add: alwt_simple image_image)
qed

lemma add_host_initiators_noop:
  assumes "mutually_exclusive p" "truthy (initiators p) \<or> truthy (detailed_initiators p)"
    and "set (requested_names p) \<subseteq> set (existing_names h)"
  shows "add_host_initiators p h a = (Inr False, a)"
  using assms
  by (auto simp: add_host_initiators_def mutually_exclusive_def requested_names_def
        existing_names_def truthy_def split: option.splits)

lemma add_host_initiators_send:
  assumes "mutually_exclusive p" "truthy (initiators p) \<or> truthy (detailed_initiators p)"
    and "\<not> set (requested_names p) \<subseteq> set (existing_names h)"
  shows "add_host_initiators p h a =
           (case send (Modify_host (h_id h)
                         (Some (add_list_with_type (detailed_initiators p)
                                  (get_add_initiators (existing_names h) (requested_names p))))
                         None None None) a of
              (Some e, a') \<Rightarrow> (Inl (RemoteOperationError Op_add), a')
            | (None, a') \<Rightarrow> (Inr True, a'))"
proof -
  let ?add = "get_add_initiators (existing_names h) (requested_names p)"
  have "set ?add \<noteq> {}" using assms(3) by (auto simp: set_get_add_initiators)
  moreover have "req_port_name ` set (add_list_with_type (detailed_initiators p) ?add) = set ?add"
    by (rule alwt_names_requested) (auto simp: set_get_add_initiators)
  ultimately have ne: "add_list_with_type (detailed_initiators p) ?add \<noteq> []" by auto
  show ?thesis
    using assms ne
    by (auto simp: add_host_initiators_def mutually_exclusive_def requested_names_def
        existing_names_def truthy_def split: option.splits)
qed

section \<open>The steps of a pass, one by one\<close>



lemma update_host_Inr:
  "update_host h nn conn a = (Inr c, a') \<Longrightarrow>
   a' = a\<lparr>requests := requests a @ [Modify_host (h_id h) None None nn conn]\<rparr>"
  by (auto simp: update_host_def send_def split: option.splits)

lemma delete_host_Inr:
  "delete_host h a = (Inr c, a') \<Longrightarrow>
   c \<and> a' = a\<lparr>requests := requests a @ [Delete_host (h_id h)]\<rparr>"
  by (auto simp: delete_host_def send_def split: option.splits)

lemma create_block_existing: "create_block p (Some h) hn s a = (Inr s, a)"
  by (simp add: create_block_def split: option.splits)

lemma remove_host_initiators_eq:
  assumes "truthy (initiators p) \<or> truthy (detailed_initiators p)"
  shows "remove_host_initiators p h a =
           (let remove_list = get_remove_initiators (existing_names h) (requested_names p)
            in if remove_list = [] then (Inr False, a)
               else (case send (Modify_host (h_id h) None (Some remove_list) None None) a of
                       (Some e, a') \<Rightarrow> (Inl (RemoteOperationError Op_remove), a')
                     | (None, a') \<Rightarrow> (Inr True, a')))"
proof (cases "existing_names h = []")
  case True
  then have "get_remove_initiators (existing_names h) (requested_names p) = []"
    by (simp add: get_remove_initiators_def list_of_set_def)
  with True show ?thesis
    by (simp add: remove_host_initiators_def existing_names_def)
next
  case False
  then show ?thesis
    using assms
    by (auto simp: remove_host_initiators_def existing_names_def requested_names_def
          truthy_def Let_def split: option.splits)
qed

lemma reconcile_Inr:
  assumes "reconcile p hid hst hn a = (Inr out, a')"
  shows "\<exists>s1 a1 s2 a2 s3 a3 s4 a4 s5.
           precondition_checks p = Inr ()
           \<and> create_block p hst hn \<lparr>p_changed = False, p_host_id = hid, p_trace = []\<rparr> a = (Inr s1, a1)
           \<and> os_type_check p hst = Inr ()
           \<and> add_block p hst s1 a1 = (Inr s2, a2)
           \<and> remove_block p hst s2 a2 = (Inr s3, a3)
           \<and> modify_block p hst s3 a3 = (Inr s4, a4)
           \<and> delete_block p hst s4 a4 = (Inr s5, a')
           \<and> create_result_dict p (p_changed s5) (p_host_id s5) a' = Inr (fst out)
           \<and> snd out = p_trace s5"
  using assms
  unfolding reconcile_def and_then_def finish_def
  by (auto split: sum.splits prod.splits)

section \<open>The changed flag of a pass\<close>






lemma create_result_dict_Inr:
  "create_result_dict p chg hid a = Inr res \<Longrightarrow>
   changed res = chg \<and> (if state p = Absent then host_details res = Empty_record
                          else \<exists>h. get_host a hid = Inr h \<and> host_details res = Details h)"
  by (auto simp: create_result_dict_def split: if_splits sum.splits)




section \<open>Evaluating a pass on the example inputs\<close>

lemmas pass_defs =
  perform_module_operation_def reconcile_def resolve_identity_def precondition_checks_def
  create_block_def os_type_check_def add_block_def remove_block_def modify_block_def
  delete_block_def finish_def and_then_def create_result_dict_def is_modify_required_def
  get_host_def get_host_id_by_name_def conn_get_host_by_name_def conn_get_host_details_def
  send_def create_host_def add_host_initiators_def remove_host_initiators_def update_host_def
  delete_host_def add_list_with_type_def get_add_initiators_def get_remove_initiators_def
  list_of_set_def startswith_def truthy_def

lemmas example_defs = example_array_def host1_def host2_def task_h1_def

lemma resolve_h1: "resolve_identity task_h1 example_array = Inr (Some ''id1'', Some host1, Some ''h1'')"
  by (simp add: pass_defs example_defs)

lemma pass_add_and_rename:
  "perform_module_operation
     (task_h1\<lparr>initiators := Some [''iqn.c''], initiator_state := Some Present_in_host,
              new_name := Some ''h1new''\<rparr>) example_array
   = (Inr (\<lparr>changed = True, host_details = Details (Some host1)\<rparr>,
           [(Step_add, True), (Step_modify, True)]),
      example_array\<lparr>requests :=
        [Modify_host ''id1''
           (Some [\<lparr>req_port_name = ''iqn.c'', req_port_type = ISCSI, req_chap = None\<rparr>])
           None None None,
         Modify_host ''id1'' None None (Some ''h1new'') None]\<rparr>)"
  by (simp add: pass_defs example_defs)




section \<open>A pass on a host that exists\<close>

lemma issued_append [simp]: "issued a (a\<lparr>requests := requests a @ xs\<rparr>) = xs"
  by (simp add: issued_def)

lemma issued_same [simp]: "issued a a = []"
  by (simp add: issued_def)

lemma add_block_skip:
  "initiator_state p \<noteq> Some Present_in_host \<or> state p \<noteq> Present
   \<Longrightarrow> add_block p hst s a = (Inr s, a)"
  by (auto simp: add_block_def split: option.splits)

lemma remove_block_skip:
  "initiator_state p \<noteq> Some Absent_in_host \<or> state p \<noteq> Present
   \<Longrightarrow> remove_block p hst s a = (Inr s, a)"
  by (auto simp: remove_block_def split: option.splits)

lemma modify_block_skip:
  "state p \<noteq> Present \<Longrightarrow> modify_block p hst s a = (Inr s, a)"
  by (auto simp: modify_block_def split: option.splits)

lemma delete_block_skip:
  "state p = Present \<Longrightarrow> delete_block p hst s a = (Inr s, a)"
  by (auto simp: delete_block_def split: option.splits)

lemma add_block_Inr:
  assumes "add_block p (Some h) s a = (Inr s', a')"
    and "state p = Present" "initiator_state p = Some Present_in_host"
    and "truthy (initiators p) \<or> truthy (detailed_initiators p)" "mutually_exclusive p"
  shows "if set (requested_names p) \<subseteq> set (existing_names h)
         then a' = a \<and> s' = s\<lparr>p_trace := p_trace s @ [(Step_add, False)]\<rparr>
         else a' = a\<lparr>requests := requests a @
                     [Modify_host (h_id h)
                        (Some (add_list_with_type (detailed_initiators p)
                                 (get_add_initiators (existing_names h) (requested_names p))))
                        None None None]\<rparr>
              \<and> s' = s\<lparr>p_changed := True, p_trace := p_trace s @ [(Step_add, True)]\<rparr>"
proof (cases "set (requested_names p) \<subseteq> set (existing_names h)")
  case True
  from add_host_initiators_noop [OF assms(5) assms(4) True] assms(1,2,3,4) True
  show ?thesis by (auto simp: add_block_def)
next
  case False
  from add_host_initiators_send [OF assms(5) assms(4) False] assms(1,2,3,4) False
  show ?thesis by (auto simp: add_block_def send_def split: option.splits)
qed

lemma remove_block_Inr:
  assumes "remove_block p (Some h) s a = (Inr s', a')"
    and "state p = Present" "initiator_state p = Some Absent_in_host"
    and "truthy (initiators p) \<or> truthy (detailed_initiators p)"
  shows "if get_remove_initiators (existing_names h) (requested_names p) = []
         then a' = a \<and> s' = s\<lparr>p_trace := p_trace s @ [(Step_remove, False)]\<rparr>
         else a' = a\<lparr>requests := requests a @
                     [Modify_host (h_id h) None
                        (Some (get_remove_initiators (existing_names h) (requested_names p)))
                        None None]\<rparr>
              \<and> s' = s\<lparr>p_changed := True, p_trace := p_trace s @ [(Step_remove, True)]\<rparr>"
  using assms(1,2,3,4) remove_host_initiators_eq [OF assms(4), of h a]
  by (auto simp: remove_block_def send_def Let_def split: option.splits if_splits)

lemma modify_block_Inr:
  assumes "modify_block p (Some h) s a = (Inr s', a')" "state p = Present"
  shows "a' = a\<lparr>requests := requests a @ rename_requests p h\<rparr>
         \<and> s' = (if rename_requests p h = [] then s
                  else s\<lparr>p_changed := True, p_trace := p_trace s @ [(Step_modify, True)]\<rparr>)"
  using assms
  by (auto simp: modify_block_def rename_requests_def update_host_def send_def Let_def
        split: option.splits if_splits)

lemma delete_block_Inr:
  assumes "delete_block p (Some h) s a = (Inr s', a')" "state p = Absent"
  shows "a' = a\<lparr>requests := requests a @ [Delete_host (h_id h)]\<rparr>
         \<and> s' = s\<lparr>p_changed := True, p_trace := p_trace s @ [(Step_delete, True)]\<rparr>"
  using assms
  by (auto simp: delete_block_def delete_host_def send_def split: option.splits)

lemma pass_existing_Inr:
  assumes "perform_module_operation p a = (Inr (res, tr), a')"
    and "resolve_identity p a = Inr (hid, Some h, hn)"
  shows "\<exists>s2 a2 s3 a3 s4 a4 s5.
           precondition_checks p = Inr ()
           \<and> os_type_check p (Some h) = Inr ()
           \<and> add_block p (Some h) \<lparr>p_changed = False, p_host_id = hid, p_trace = []\<rparr> a = (Inr s2, a2)
           \<and> remove_block p (Some h) s2 a2 = (Inr s3, a3)
           \<and> modify_block p (Some h) s3 a3 = (Inr s4, a4)
           \<and> delete_block p (Some h) s4 a4 = (Inr s5, a')
           \<and> changed res = p_changed s5 \<and> tr = p_trace s5"
proof -
  from assms have rc: "reconcile p hid (Some h) hn a = (Inr (res, tr), a')"
    by (simp add: perform_module_operation_def)
  from reconcile_Inr [OF rc] obtain s1 a1 s2 a2 s3 a3 s4 a4 s5 where
    pc: "precondition_checks p = Inr ()"
    and c: "create_block p (Some h) hn \<lparr>p_changed = False, p_host_id = hid, p_trace = []\<rparr> a = (Inr s1, a1)"
    and os: "os_type_check p (Some h) = Inr ()"
    and ad: "add_block p (Some h) s1 a1 = (Inr s2, a2)"
    and rm: "remove_block p (Some h) s2 a2 = (Inr s3, a3)"
    and md: "modify_block p (Some h) s3 a3 = (Inr s4, a4)"
    and dl: "delete_block p (Some h) s4 a4 = (Inr s5, a')"
    and rs: "create_result_dict p (p_changed s5) (p_host_id s5) a' = Inr res"
    and tr: "tr = p_trace s5"
    by auto
  from c have "s1 = \<lparr>p_changed = False, p_host_id = hid, p_trace = []\<rparr>" "a1 = a"
    by (simp_all add: create_block_existing)
  moreover have "changed res = p_changed s5" using create_result_dict_Inr [OF rs] by simp
  ultimately show ?thesis using pc os ad rm md dl tr by blast
qed

section \<open>Adding initiators to a host that exists\<close>

text \<open>
  C4 as the claim states it fails twice. With \<open>state = absent\<close> the host exists,
  \<open>initiator_state = present-in-host\<close> and the requested \<open>iqn.c\<close> is not on the host, yet
  the pass sends no add request: it deletes the host. With \<open>state = present\<close>, the
  requested \<open>iqn.a\<close> already on the host and a new name, the pass returns
  \<open>changed = True\<close> and sends a modify request, the one of the rename step.
\<close>

theorem add_step_counterexample:
  "\<not> set (requested_names (task_h1\<lparr>state := Absent, initiators := Some [''iqn.c''],
                                    initiator_state := Some Present_in_host\<rparr>))
        \<subseteq> set (existing_names host1)
   \<and> perform_module_operation
         (task_h1\<lparr>state := Absent, initiators := Some [''iqn.c''],
                  initiator_state := Some Present_in_host\<rparr>) example_array
       = (Inr (\<lparr>changed = True, host_details = Empty_record\<rparr>, [(Step_delete, True)]),
          example_array\<lparr>requests := [Delete_host ''id1'']\<rparr>)
   \<and> set (requested_names (task_h1\<lparr>initiators := Some [''iqn.a''],
                                    initiator_state := Some Present_in_host,
                                    new_name := Some ''h1new''\<rparr>))
        \<subseteq> set (existing_names host1)
   \<and> perform_module_operation
         (task_h1\<lparr>initiators := Some [''iqn.a''], initiator_state := Some Present_in_host,
                  new_name := Some ''h1new''\<rparr>) example_array
       = (Inr (\<lparr>changed = True, host_details = Details (Some host1)\<rparr>,
               [(Step_add, False), (Step_modify, True)]),
          example_array\<lparr>requests := [Modify_host ''id1'' None None (Some ''h1new'') None]\<rparr>)"
  by (simp add: pass_defs example_defs requested_names_def existing_names_def)

text \<open>
  C4, amended: when \<open>state = present\<close>, the host exists,
  \<open>initiator_state = present-in-host\<close>, initiators are given in one of the two forms, and
  the pass returns, then: if every requested port name is on the host, the add step
  returns \<open>False\<close> and sends nothing, the only request of the pass is the one of the
  rename and connectivity step (if that step sends one), and \<open>changed\<close> is true exactly
  when it does; otherwise the pass sends exactly one add request, first, whose initiators
  are precisely the requested names that are not on the host, and returns
  \<open>changed = True\<close>.
\<close>

theorem add_step_of_a_pass:
  assumes "perform_module_operation p a = (Inr (res, tr), a')"
    and "resolve_identity p a = Inr (hid, Some h, hn)"
    and "state p = Present" "initiator_state p = Some Present_in_host"
    and "truthy (initiators p) \<or> truthy (detailed_initiators p)" "mutually_exclusive p"
  shows "if set (requested_names p) \<subseteq> set (existing_names h)
         then issued a a' = rename_requests p h
              \<and> changed res = (rename_requests p h \<noteq> [])
              \<and> (Step_add, False) \<in> set tr
         else (\<exists>to_add. issued a a' = Modify_host (h_id h) (Some to_add) None None None
                                         # rename_requests p h
                  \<and> req_port_name ` set to_add
                      = set (requested_names p) - set (existing_names h))
              \<and> changed res \<and> (Step_add, True) \<in> set tr"
proof -
  let ?s0 = "\<lparr>p_changed = False, p_host_id = hid, p_trace = []\<rparr>"
  let ?add = "get_add_initiators (existing_names h) (requested_names p)"
  let ?to_add = "add_list_with_type (detailed_initiators p) ?add"
  from pass_existing_Inr [OF assms(1,2)] obtain s2 a2 s3 a3 s4 a4 s5 where
    ad: "add_block p (Some h) ?s0 a = (Inr s2, a2)"
    and rm: "remove_block p (Some h) s2 a2 = (Inr s3, a3)"
    and md: "modify_block p (Some h) s3 a3 = (Inr s4, a4)"
    and dl: "delete_block p (Some h) s4 a4 = (Inr s5, a')"
    and ch: "changed res = p_changed s5" and tr: "tr = p_trace s5"
    by blast
  from rm assms(4) have 3: "s3 = s2" "a3 = a2" by (simp_all add: remove_block_skip)
  from dl assms(3) have 5: "s5 = s4" "a' = a4" by (simp_all add: delete_block_skip)
  note m = modify_block_Inr [OF md assms(3)]
  note d = add_block_Inr [OF ad assms(3,4,5,6)]
  have names: "req_port_name ` set ?to_add = set (requested_names p) - set (existing_names h)"
    using alwt_names_requested [of ?add p] by (auto simp: set_get_add_initiators)
  show ?thesis
  proof (cases "set (requested_names p) \<subseteq> set (existing_names h)")
    case True
    with d have "a2 = a" "s2 = ?s0\<lparr>p_trace := p_trace ?s0 @ [(Step_add, False)]\<rparr>" by simp_all
    with m 3 5 ch tr True show ?thesis by (simp split: if_splits)
  next
    case False
    with d have "a2 = a\<lparr>requests := requests a @ [Modify_host (h_id h) (Some ?to_add) None None None]\<rparr>"
      "s2 = ?s0\<lparr>p_changed := True, p_trace := p_trace ?s0 @ [(Step_add, True)]\<rparr>"
      by simp_all
    with m 3 5 ch tr have
      "issued a a' = Modify_host (h_id h) (Some ?to_add) None None None # rename_requests p h"
      "changed res" "(Step_add, True) \<in> set tr"
      by (simp_all split: if_splits)
    with names False show ?thesis by auto
  qed
qed

theorem add_step_of_a_pass_witness:
  "\<not> set (requested_names (task_h1\<lparr>initiators := Some [''iqn.c''],
                                    initiator_state := Some Present_in_host,
                                    new_name := Some ''h1new''\<rparr>))
        \<subseteq> set (existing_names host1)
   \<and> (\<exists>to_add.
         issued example_array
           (example_array\<lparr>requests :=
              [Modify_host ''id1''
                 (Some [\<lparr>req_port_name = ''iqn.c'', req_port_type = ISCSI, req_chap = None\<rparr>])
                 None None None,
               Modify_host ''id1'' None None (Some ''h1new'') None]\<rparr>)
         = Modify_host (h_id host1) (Some to_add) None None None
             # rename_requests (task_h1\<lparr>initiators := Some [''iqn.c''],
                                        initiator_state := Some Present_in_host,
                                        new_name := Some ''h1new''\<rparr>) host1
         \<and> req_port_name ` set to_add = {''iqn.c''})"
proof -
  let ?p = "task_h1\<lparr>initiators := Some [''iqn.c''], initiator_state := Some Present_in_host,
                     new_name := Some ''h1new''\<rparr>"
  have r: "resolve_identity ?p example_array = Inr (Some ''id1'', Some host1, Some ''h1'')"
    by (simp add: pass_defs example_defs)
  have n: "\<not> set (requested_names ?p) \<subseteq> set (existing_names host1)"
    by (simp add: requested_names_def existing_names_def truthy_def example_defs)
  have d: "set (requested_names ?p) - set (existing_names host1) = {''iqn.c''}"
    by (simp add: requested_names_def existing_names_def truthy_def example_defs)
  have "state ?p = Present" "initiator_state ?p = Some Present_in_host"
    "truthy (initiators ?p) \<or> truthy (detailed_initiators ?p)" "mutually_exclusive ?p"
    by (simp_all add: example_defs truthy_def mutually_exclusive_def)
  from add_step_of_a_pass [OF pass_add_and_rename r this] n d
  show ?thesis by simp
qed

section \<open>Removing initiators from a host that exists\<close>

text \<open>
  C5 as the claim states it fails twice. With \<open>state = absent\<close> the host exists,
  \<open>initiator_state = absent-in-host\<close> and the requested \<open>iqn.b\<close> is on the host, yet the
  pass sends no remove request: it deletes the host. With \<open>state = present\<close>, a requested
  name that is not on the host and a new name, the removal set is empty, yet the pass
  returns \<open>changed = True\<close> and sends a request, the one of the rename step.
\<close>

theorem remove_step_counterexample:
  "set (existing_names host1)
     \<inter> set (requested_names (task_h1\<lparr>state := Absent, initiators := Some [''iqn.b'', ''iqn.c''],
                                      initiator_state := Some Absent_in_host\<rparr>)) = {''iqn.b''}
   \<and> perform_module_operation
         (task_h1\<lparr>state := Absent, initiators := Some [''iqn.b'', ''iqn.c''],
                  initiator_state := Some Absent_in_host\<rparr>) example_array
       = (Inr (\<lparr>changed = True, host_details = Empty_record\<rparr>, [(Step_delete, True)]),
          example_array\<lparr>requests := [Delete_host ''id1'']\<rparr>)
   \<and> set (existing_names host1)
       \<inter> set (requested_names (task_h1\<lparr>initiators := Some [''iqn.c''],
                                        initiator_state := Some Absent_in_host,
                                        new_name := Some ''h1new''\<rparr>)) = {}
   \<and> perform_module_operation
         (task_h1\<lparr>initiators := Some [''iqn.c''], initiator_state := Some Absent_in_host,
                  new_name := Some ''h1new''\<rparr>) example_array
       = (Inr (\<lparr>changed = True, host_details = Details (Some host1)\<rparr>,
               [(Step_remove, False), (Step_modify, True)]),
          example_array\<lparr>requests := [Modify_host ''id1'' None None (Some ''h1new'') None]\<rparr>)"
  by (simp add: pass_defs example_defs requested_names_def existing_names_def)

lemma pass_remove_scenario_C:
  "perform_module_operation
     (task_h1\<lparr>initiators := Some [''iqn.b'', ''iqn.c''],
              initiator_state := Some Absent_in_host\<rparr>) example_array
   = (Inr (\<lparr>changed = True, host_details = Details (Some host1)\<rparr>, [(Step_remove, True)]),
      example_array\<lparr>requests := [Modify_host ''id1'' None (Some [''iqn.b'']) None None]\<rparr>)"
  by (simp add: pass_defs example_defs)

text \<open>
  C5, amended: when \<open>state = present\<close>, the host exists,
  \<open>initiator_state = absent-in-host\<close>, initiators are given and the pass returns, then: if
  no requested port name is on the host (in particular if the host has no initiators),
  the remove step returns \<open>False\<close> and sends nothing, the only request of the pass is the
  one of the rename and connectivity step (if that step sends one), and \<open>changed\<close> is
  true exactly when it does; otherwise the pass sends exactly one remove request, first,
  which names exactly the port names that are both on the host and requested, each once
  and as a bare name, and returns \<open>changed = True\<close>.
\<close>

theorem remove_step_of_a_pass:
  assumes "perform_module_operation p a = (Inr (res, tr), a')"
    and "resolve_identity p a = Inr (hid, Some h, hn)"
    and "state p = Present" "initiator_state p = Some Absent_in_host"
    and "truthy (initiators p) \<or> truthy (detailed_initiators p)"
  shows "if existing_names h = [] \<or> set (existing_names h) \<inter> set (requested_names p) = {}
         then issued a a' = rename_requests p h
              \<and> changed res = (rename_requests p h \<noteq> [])
              \<and> (Step_remove, False) \<in> set tr
         else (\<exists>names. issued a a' = Modify_host (h_id h) None (Some names) None None
                                        # rename_requests p h
                  \<and> set names = set (existing_names h) \<inter> set (requested_names p)
                  \<and> distinct names)
              \<and> changed res \<and> (Step_remove, True) \<in> set tr"
proof -
  let ?s0 = "\<lparr>p_changed = False, p_host_id = hid, p_trace = []\<rparr>"
  let ?rem = "get_remove_initiators (existing_names h) (requested_names p)"
  from pass_existing_Inr [OF assms(1,2)] obtain s2 a2 s3 a3 s4 a4 s5 where
    ad: "add_block p (Some h) ?s0 a = (Inr s2, a2)"
    and rm: "remove_block p (Some h) s2 a2 = (Inr s3, a3)"
    and md: "modify_block p (Some h) s3 a3 = (Inr s4, a4)"
    and dl: "delete_block p (Some h) s4 a4 = (Inr s5, a')"
    and ch: "changed res = p_changed s5" and tr: "tr = p_trace s5"
    by blast
  from ad assms(4) have 2: "s2 = ?s0" "a2 = a" by (simp_all add: add_block_skip)
  from dl assms(3) have 5: "s5 = s4" "a' = a4" by (simp_all add: delete_block_skip)
  note m = modify_block_Inr [OF md assms(3)]
  note d = remove_block_Inr [OF rm assms(3,4,5)]
  have s: "set ?rem = set (existing_names h) \<inter> set (requested_names p)"
    by (rule set_get_remove_initiators)
  have dist: "distinct ?rem" by (simp add: get_remove_initiators_def list_of_set_def)
  have e: "(existing_names h = [] \<or> set (existing_names h) \<inter> set (requested_names p) = {})
           = (?rem = [])"
    using s by (metis Int_empty_left set_empty)
  show ?thesis
  proof (cases "?rem = []")
    case True
    with d 2 have "a3 = a" "s3 = ?s0\<lparr>p_trace := p_trace ?s0 @ [(Step_remove, False)]\<rparr>"
      by simp_all
    with m 5 ch tr True e show ?thesis by (simp split: if_splits)
  next
    case False
    with d 2 have "a3 = a\<lparr>requests := requests a @ [Modify_host (h_id h) None (Some ?rem) None None]\<rparr>"
      "s3 = ?s0\<lparr>p_changed := True, p_trace := p_trace ?s0 @ [(Step_remove, True)]\<rparr>"
      by simp_all
    with m 5 ch tr have
      "issued a a' = Modify_host (h_id h) None (Some ?rem) None None # rename_requests p h"
      "changed res" "(Step_remove, True) \<in> set tr"
      by (simp_all split: if_splits)
    with s dist False e show ?thesis by auto
  qed
qed

theorem remove_step_of_a_pass_witness:
  "(\<exists>names.
      issued example_array
        (example_array\<lparr>requests := [Modify_host ''id1'' None (Some [''iqn.b'']) None None]\<rparr>)
      = Modify_host (h_id host1) None (Some names) None None
          # rename_requests (task_h1\<lparr>initiators := Some [''iqn.b'', ''iqn.c''],
                                     initiator_state := Some Absent_in_host\<rparr>) host1
      \<and> set names = {''iqn.b''} \<and> distinct names)
   \<and> changed \<lparr>changed = True, host_details = Details (Some host1)\<rparr>"
proof -
  let ?p = "task_h1\<lparr>initiators := Some [''iqn.b'', ''iqn.c''],
                     initiator_state := Some Absent_in_host\<rparr>"
  have r: "resolve_identity ?p example_array = Inr (Some ''id1'', Some host1, Some ''h1'')"
    by (simp add: pass_defs example_defs)
  have n: "\<not> (existing_names host1 = []
               \<or> set (existing_names host1) \<inter> set (requested_names ?p) = {})"
    by (simp add: requested_names_def existing_names_def truthy_def example_defs)
  have d: "set (existing_names host1) \<inter> set (requested_names ?p) = {''iqn.b''}"
    by (simp add: requested_names_def existing_names_def truthy_def example_defs)
  have "state ?p = Present" "initiator_state ?p = Some Absent_in_host"
    "truthy (initiators ?p) \<or> truthy (detailed_initiators ?p)"
    by (simp_all add: example_defs truthy_def)
  from remove_step_of_a_pass [OF pass_remove_scenario_C r this] n d
  show ?thesis by simp
qed

section \<open>Renaming a host and changing its connectivity\<close>

lemma add_block_no_rename:
  assumes "add_block p hst s a = (Inr s', a')"
  shows "\<exists>xs. a' = a\<lparr>requests := requests a @ xs\<rparr> \<and> filter is_rename_request xs = []"
proof -
  from assms have "a' = a\<lparr>requests := requests a @ []\<rparr>
      \<or> (\<exists>i l. a' = a\<lparr>requests := requests a @ [Modify_host i (Some l) None None None]\<rparr>)"
    by (auto simp: add_block_def add_host_initiators_def send_def Let_def
          split: option.splits if_splits)
  then show ?thesis
  proof
    assume "a' = a\<lparr>requests := requests a @ []\<rparr>"
    then show ?thesis by (intro exI [of _ "[]"]) simp
  next
    assume "\<exists>i l. a' = a\<lparr>requests := requests a @ [Modify_host i (Some l) None None None]\<rparr>"
    then obtain i l where
      "a' = a\<lparr>requests := requests a @ [Modify_host i (Some l) None None None]\<rparr>" by blast
    then show ?thesis by (intro exI [of _ "[Modify_host i (Some l) None None None]"]) simp
  qed
qed

lemma remove_block_no_rename:
  assumes "remove_block p hst s a = (Inr s', a')"
  shows "\<exists>xs. a' = a\<lparr>requests := requests a @ xs\<rparr> \<and> filter is_rename_request xs = []"
proof -
  from assms have "a' = a\<lparr>requests := requests a @ []\<rparr>
      \<or> (\<exists>i l. a' = a\<lparr>requests := requests a @ [Modify_host i None (Some l) None None]\<rparr>)"
    by (auto simp: remove_block_def remove_host_initiators_def send_def Let_def
          split: option.splits if_splits)
  then show ?thesis
  proof
    assume "a' = a\<lparr>requests := requests a @ []\<rparr>"
    then show ?thesis by (intro exI [of _ "[]"]) simp
  next
    assume "\<exists>i l. a' = a\<lparr>requests := requests a @ [Modify_host i None (Some l) None None]\<rparr>"
    then obtain i l where
      "a' = a\<lparr>requests := requests a @ [Modify_host i None (Some l) None None]\<rparr>" by blast
    then show ?thesis by (intro exI [of _ "[Modify_host i None (Some l) None None]"]) simp
  qed
qed

lemma rename_requests_iff:
  assumes "truthy (new_name p) \<or> truthy (host_connectivity p)"
  shows "rename_requests p h =
           (if (new_name p \<noteq> None \<and> new_name p \<noteq> Some (h_name h))
               \<or> (host_connectivity p \<noteq> None
                  \<and> host_connectivity p \<noteq> Some (h_host_connectivity h))
            then [Modify_host (h_id h) None None (new_name p) (host_connectivity p)]
            else [])"
  using assms by (auto simp: rename_requests_def is_modify_required_def)

lemma pass_rename:
  "perform_module_operation (task_h1\<lparr>new_name := Some ''h1new''\<rparr>) example_array
   = (Inr (\<lparr>changed = True, host_details = Details (Some host1)\<rparr>, [(Step_modify, True)]),
      example_array\<lparr>requests := [Modify_host ''id1'' None None (Some ''h1new'') None]\<rparr>)"
  by (simp add: pass_defs example_defs)

text \<open>
  C6 as the claim states it fails when \<open>state = absent\<close>: the host exists and the new
  name differs from the observed one, yet the pass sends no modify request; it deletes
  the host.
\<close>

theorem modify_step_counterexample:
  "new_name (task_h1\<lparr>state := Absent, new_name := Some ''h1new''\<rparr>) \<noteq> Some (h_name host1)
   \<and> resolve_identity (task_h1\<lparr>state := Absent, new_name := Some ''h1new''\<rparr>) example_array
       = Inr (Some ''id1'', Some host1, Some ''h1'')
   \<and> perform_module_operation (task_h1\<lparr>state := Absent, new_name := Some ''h1new''\<rparr>)
         example_array
       = (Inr (\<lparr>changed = True, host_details = Empty_record\<rparr>, [(Step_delete, True)]),
          example_array\<lparr>requests := [Delete_host ''id1'']\<rparr>)"
  by (simp add: pass_defs example_defs)

text \<open>
  C6, amended: when \<open>state = present\<close>, the host exists, \<open>new_name\<close> or
  \<open>host_connectivity\<close> is given (and not empty) and the pass returns, then the pass
  sends a rename and connectivity request if and only if \<open>new_name\<close> is given and differs
  from the observed name, or \<open>host_connectivity\<close> is given and differs from the observed
  connectivity; it sends at most one, it carries both parameters, and the modify step is
  in the trace exactly then.
\<close>

theorem modify_step_of_a_pass:
  assumes "perform_module_operation p a = (Inr (res, tr), a')"
    and "resolve_identity p a = Inr (hid, Some h, hn)"
    and "state p = Present"
    and "truthy (new_name p) \<or> truthy (host_connectivity p)"
  shows "filter is_rename_request (issued a a') =
           (if (new_name p \<noteq> None \<and> new_name p \<noteq> Some (h_name h))
               \<or> (host_connectivity p \<noteq> None
                  \<and> host_connectivity p \<noteq> Some (h_host_connectivity h))
            then [Modify_host (h_id h) None None (new_name p) (host_connectivity p)]
            else [])
         \<and> ((Step_modify, True) \<in> set tr) =
             ((new_name p \<noteq> None \<and> new_name p \<noteq> Some (h_name h))
               \<or> (host_connectivity p \<noteq> None
                  \<and> host_connectivity p \<noteq> Some (h_host_connectivity h)))"
proof -
  let ?s0 = "\<lparr>p_changed = False, p_host_id = hid, p_trace = []\<rparr>"
  from pass_existing_Inr [OF assms(1,2)] obtain s2 a2 s3 a3 s4 a4 s5 where
    ad: "add_block p (Some h) ?s0 a = (Inr s2, a2)"
    and rm: "remove_block p (Some h) s2 a2 = (Inr s3, a3)"
    and md: "modify_block p (Some h) s3 a3 = (Inr s4, a4)"
    and dl: "delete_block p (Some h) s4 a4 = (Inr s5, a')"
    and tr: "tr = p_trace s5"
    by blast
  from add_block_no_rename [OF ad] obtain xs where
    xs: "a2 = a\<lparr>requests := requests a @ xs\<rparr>" "filter is_rename_request xs = []" by blast
  from remove_block_no_rename [OF rm] obtain ys where
    ys: "a3 = a2\<lparr>requests := requests a2 @ ys\<rparr>" "filter is_rename_request ys = []" by blast
  from dl assms(3) have 5: "s5 = s4" "a' = a4" by (simp_all add: delete_block_skip)
  note m = modify_block_Inr [OF md assms(3)]
  have "a' = a\<lparr>requests := requests a @ (xs @ ys @ rename_requests p h)\<rparr>"
    using xs(1) ys(1) m 5 by simp
  then have "issued a a' = xs @ ys @ rename_requests p h" by (simp only: issued_append)
  then have "filter is_rename_request (issued a a') = filter is_rename_request (rename_requests p h)"
    using xs(2) ys(2) by simp
  also have "\<dots> = rename_requests p h" by (simp add: rename_requests_def)
  finally have 1: "filter is_rename_request (issued a a') = rename_requests p h" .
  have s2: "(Step_modify, True) \<notin> set (p_trace s2)"
    using ad by (auto simp: add_block_def split: option.splits if_splits prod.splits sum.splits)
  have s3: "(Step_modify, True) \<notin> set (p_trace s3)"
    using rm s2 by (auto simp: remove_block_def split: option.splits if_splits prod.splits sum.splits)
  have 2: "((Step_modify, True) \<in> set tr) = (rename_requests p h \<noteq> [])"
    using m 5 tr s3 by (simp split: if_splits)
  show ?thesis using 1 2 by (simp add: rename_requests_iff [OF assms(4)])
qed

theorem modify_step_of_a_pass_witness:
  "filter is_rename_request
     (issued example_array
        (example_array\<lparr>requests := [Modify_host ''id1'' None None (Some ''h1new'') None]\<rparr>))
   = [Modify_host ''id1'' None None (Some ''h1new'') None]"
proof -
  let ?p = "task_h1\<lparr>new_name := Some ''h1new''\<rparr>"
  have r: "resolve_identity ?p example_array = Inr (Some ''id1'', Some host1, Some ''h1'')"
    by (simp add: pass_defs example_defs)
  have "state ?p = Present" "truthy (new_name ?p) \<or> truthy (host_connectivity ?p)"
    by (simp_all add: example_defs truthy_def)
  from modify_step_of_a_pass [OF pass_rename r this, THEN conjunct1]
  show ?thesis by (simp add: example_defs)
qed

section \<open>The operating system of a host that exists\<close>

lemma validate_initiators_Inl:
  "validate_initiators ds = Inl e \<Longrightarrow> e = ValidationError FC \<or> e = ValidationError NVMe"
  by (induction ds) (auto split: if_splits)

lemma precondition_checks_Inl:
  "precondition_checks p = Inl e \<Longrightarrow>
   e = ConfigurationError \<or> e = ValidationError FC \<or> e = ValidationError NVMe"
  by (auto simp: precondition_checks_def split: if_splits dest: validate_initiators_Inl)

text \<open>
  C9 as the claim states it fails when an earlier check refuses the parameters: the host
  exists and \<open>os_type\<close> differs from the observed one, but \<open>initiator_state\<close> is given
  without initiators, and the pass fails with the configuration error of line 745.
\<close>

theorem os_type_counterexample:
  "resolve_identity (task_h1\<lparr>os_type := Some ''Linux'',
                             initiator_state := Some Present_in_host\<rparr>) example_array
     = Inr (Some ''id1'', Some host1, Some ''h1'')
   \<and> h_os_type host1 = ''Windows''
   \<and> perform_module_operation
        (task_h1\<lparr>os_type := Some ''Linux'', initiator_state := Some Present_in_host\<rparr>)
        example_array
      = (Inl ConfigurationError, example_array)"
  by (simp add: pass_defs example_defs)

text \<open>
  C9, amended: when the host exists and \<open>os_type\<close> is given and differs from the observed
  one, the pass fails and sends no request at all. It fails with ImmutableFieldError when
  the checks on the parameters that come first (lines 745 to 762) pass, and otherwise
  with the error of those checks, a ConfigurationError or a ValidationError.
\<close>

theorem os_type_cannot_change:
  assumes "resolve_identity p a = Inr (hid, Some h, hn)"
    and "truthy (os_type p)" "os_type p \<noteq> Some (h_os_type h)"
  shows "perform_module_operation p a
           = (Inl (case precondition_checks p of Inl e \<Rightarrow> e | Inr u \<Rightarrow> ImmutableFieldError), a)
         \<and> (case precondition_checks p of
               Inl e \<Rightarrow> e = ConfigurationError \<or> e = ValidationError FC \<or> e = ValidationError NVMe
             | Inr u \<Rightarrow> True)"
proof (cases "precondition_checks p")
  case (Inl e)
  with assms(1) precondition_checks_Inl [OF Inl] show ?thesis
    by (simp add: perform_module_operation_def reconcile_def)
next
  case (Inr u)
  with assms show ?thesis
    by (simp add: perform_module_operation_def reconcile_def and_then_def
          create_block_existing os_type_check_def)
qed

theorem os_type_cannot_change_witness:
  "perform_module_operation (task_h1\<lparr>os_type := Some ''Linux''\<rparr>) example_array
     = (Inl ImmutableFieldError, example_array)"
proof -
  let ?p = "task_h1\<lparr>os_type := Some ''Linux''\<rparr>"
  have r: "resolve_identity ?p example_array = Inr (Some ''id1'', Some host1, Some ''h1'')"
    by (simp add: pass_defs example_defs)
  have t: "truthy (os_type ?p)" "os_type ?p \<noteq> Some (h_os_type host1)"
    by (simp_all add: example_defs truthy_def)
  have c: "precondition_checks ?p = Inr ()"
    by (simp add: precondition_checks_def example_defs truthy_def)
  from os_type_cannot_change [OF r t, THEN conjunct1] c show ?thesis by simp
qed

section \<open>CHAP credentials and port types\<close>

lemma validate_initiators_fails_iff:
  "(\<exists>e. validate_initiators ds = Inl e) =
   (\<exists>i \<in> set ds. (truthy (chap_single_username (chap i))
                    \<or> truthy (chap_mutual_username (chap i)))
                  \<and> (port_type i = Some FC \<or> port_type i = Some NVMe))"
  by (induction ds) auto

text \<open>
  What the validation does refuse: when the identity of the host is resolved,
  \<open>initiator_state\<close> is given and some detailed initiator has a CHAP user name and the
  \<open>port_type\<close> FC or NVMe written out, the pass fails with a ValidationError and sends
  nothing.
\<close>

lemma explicit_fc_or_nvme_with_chap_is_refused:
  assumes "resolve_identity p a = Inr (hid, hst, hn)"
    and "initiator_state p \<noteq> None" "detailed_initiators p = Some ds"
    and "i \<in> set ds"
    and "truthy (chap_single_username (chap i)) \<or> truthy (chap_mutual_username (chap i))"
    and "port_type i = Some FC \<or> port_type i = Some NVMe"
  shows "perform_module_operation p a = (Inl (ValidationError FC), a)
         \<or> perform_module_operation p a = (Inl (ValidationError NVMe), a)"
proof -
  from assms(4) have ne: "ds \<noteq> []" by auto
  with assms(2,3) have pc: "precondition_checks p = validate_initiators ds"
    by (auto simp: precondition_checks_def truthy_def)
  from assms(4,5,6) have "\<exists>e. validate_initiators ds = Inl e"
    unfolding validate_initiators_fails_iff by blast
  then obtain e where e: "validate_initiators ds = Inl e" ..
  from validate_initiators_Inl [OF e] e pc assms(1) show ?thesis
    by (auto simp: perform_module_operation_def reconcile_def)
qed

text \<open>
  C1: the validation reads the \<open>port_type\<close> the playbook gives and nothing else. An
  initiator with a WWN for a name, no \<open>port_type\<close> and a CHAP user name passes it; the
  create path then infers FC from the name and sends the initiator to the array with its
  CHAP credentials. The same initiator with \<open>port_type = FC\<close> written out is refused.
\<close>

theorem chap_on_inferred_fc_reaches_the_array:
  "validate_initiators
     [\<lparr>port_name = ''21:00:00:24:ff:31:e9:fc'', port_type = None,
       chap = \<lparr>chap_single_username = Some ''chapuser'',
               chap_single_password = Some ''chappasswd12345'',
               chap_mutual_username = None, chap_mutual_password = None\<rparr>\<rparr>] = Inr ()
   \<and> classify ''21:00:00:24:ff:31:e9:fc'' = FC
   \<and> perform_module_operation
        (task_h1\<lparr>host_name := Some ''h2'', os_type := Some ''Linux'',
                 initiator_state := Some Present_in_host,
                 detailed_initiators :=
                   Some [\<lparr>port_name = ''21:00:00:24:ff:31:e9:fc'', port_type = None,
                          chap = \<lparr>chap_single_username = Some ''chapuser'',
                                  chap_single_password = Some ''chappasswd12345'',
                                  chap_mutual_username = None,
                                  chap_mutual_password = None\<rparr>\<rparr>]\<rparr>) example_array
      = (Inr (\<lparr>changed = True, host_details = Details (Some host2)\<rparr>, [(Step_create, True)]),
         example_array\<lparr>requests :=
           [Create_host ''h2'' ''Linux''
              [\<lparr>req_port_name = ''21:00:00:24:ff:31:e9:fc'', req_port_type = FC,
                req_chap = Some \<lparr>chap_single_username = Some ''chapuser'',
                                 chap_single_password = Some ''chappasswd12345'',
                                 chap_mutual_username = None,
                                 chap_mutual_password = None\<rparr>\<rparr>]
              None]\<rparr>)
   \<and> perform_module_operation
        (task_h1\<lparr>host_name := Some ''h2'', os_type := Some ''Linux'',
                 initiator_state := Some Present_in_host,
                 detailed_initiators :=
                   Some [\<lparr>port_name = ''21:00:00:24:ff:31:e9:fc'', port_type = Some FC,
                          chap = \<lparr>chap_single_username = Some ''chapuser'',
                                  chap_single_password = Some ''chappasswd12345'',
                                  chap_mutual_username = None,
                                  chap_mutual_password = None\<rparr>\<rparr>]\<rparr>) example_array
      = (Inl (ValidationError FC), example_array)"
  by (simp add: pass_defs example_defs classify_def)

text \<open>
  C2: the test for a list with all three port types is in the branch of \<open>create_host\<close>
  for parameter \<open>initiators\<close> only. The same three names given as
  \<open>detailed_initiators\<close> are sent to the array in one create request.
\<close>

theorem three_families_in_detailed_form_are_created:
  "perform_module_operation
     (task_h1\<lparr>host_name := Some ''h2'', os_type := Some ''Linux'',
              initiator_state := Some Present_in_host,
              initiators := Some [''iqn.1998-01.com.vmware:a'', ''21:00:00:24:ff:31:e9:fc'',
                                  ''nqn.2014-08.org.nvmexpress:b'']\<rparr>) example_array
     = (Inl ProtocolMixError, example_array)
   \<and> perform_module_operation
        (task_h1\<lparr>host_name := Some ''h2'', os_type := Some ''Linux'',
                 initiator_state := Some Present_in_host,
                 detailed_initiators :=
                   Some [\<lparr>port_name = ''iqn.1998-01.com.vmware:a'', port_type = None,
                          chap = \<lparr>chap_single_username = None, chap_single_password = None,
                                  chap_mutual_username = None, chap_mutual_password = None\<rparr>\<rparr>,
                         \<lparr>port_name = ''21:00:00:24:ff:31:e9:fc'', port_type = None,
                          chap = \<lparr>chap_single_username = None, chap_single_password = None,
                                  chap_mutual_username = None, chap_mutual_password = None\<rparr>\<rparr>,
                         \<lparr>port_name = ''nqn.2014-08.org.nvmexpress:b'', port_type = None,
                          chap = \<lparr>chap_single_username = None, chap_single_password = None,
                                  chap_mutual_username = None,
                                  chap_mutual_password = None\<rparr>\<rparr>]\<rparr>) example_array
      = (Inr (\<lparr>changed = True, host_details = Details (Some host2)\<rparr>, [(Step_create, True)]),
         example_array\<lparr>requests :=
           [Create_host ''h2'' ''Linux''
              [\<lparr>req_port_name = ''iqn.1998-01.com.vmware:a'', req_port_type = ISCSI,
                req_chap = Some \<lparr>chap_single_username = None, chap_single_password = None,
                                 chap_mutual_username = None, chap_mutual_password = None\<rparr>\<rparr>,
               \<lparr>req_port_name = ''21:00:00:24:ff:31:e9:fc'', req_port_type = FC,
                req_chap = Some \<lparr>chap_single_username = None, chap_single_password = None,
                                 chap_mutual_username = None, chap_mutual_password = None\<rparr>\<rparr>,
               \<lparr>req_port_name = ''nqn.2014-08.org.nvmexpress:b'', req_port_type = NVMe,
                req_chap = Some \<lparr>chap_single_username = None, chap_single_password = None,
                                 chap_mutual_username = None, chap_mutual_password = None\<rparr>\<rparr>]
              None]\<rparr>)"
  by (simp add: pass_defs example_defs)

section \<open>The classifier at the sites that infer a port type\<close>

lemma classify_startswith:
  "classify s = (if startswith s ''iqn'' then ISCSI else if startswith s ''nqn'' then NVMe else FC)"
  by (simp add: classify_def startswith_prefix)

lemma create_host_simple:
  assumes "os_type p = Some os" "initiators p = Some xs" "xs \<noteq> []"
  shows "create_host p n a =
           (if ISCSI \<in> classify ` set xs \<and> FC \<in> classify ` set xs \<and> NVMe \<in> classify ` set xs
            then (Inl ProtocolMixError, a)
            else (case send (Create_host n os
                               (map (\<lambda>i. \<lparr>req_port_name = i, req_port_type = classify i,
                                          req_chap = None\<rparr>) xs)
                               (host_connectivity p)) a of
                    (Some e, a') \<Rightarrow> (Inl (RemoteOperationError Op_create), a')
                  | (None, a') \<Rightarrow> (Inr True, a')))"
proof -
  have m: "(\<lambda>initiator.
              if startswith initiator ''iqn''
              then \<lparr>req_port_name = initiator, req_port_type = ISCSI, req_chap = None\<rparr>
              else if startswith initiator ''nqn''
              then \<lparr>req_port_name = initiator, req_port_type = NVMe, req_chap = None\<rparr>
              else \<lparr>req_port_name = initiator, req_port_type = FC, req_chap = None\<rparr>)
           = (\<lambda>i. \<lparr>req_port_name = i, req_port_type = classify i, req_chap = None\<rparr>)"
    by (rule ext) (simp add: classify_startswith)
  have t: "(\<lambda>initiator. if startswith initiator ''iqn'' then ISCSI
                         else if startswith initiator ''nqn'' then NVMe else FC) = classify"
    by (rule ext) (simp add: classify_startswith)
  show ?thesis
    using assms
    by (simp add: create_host_def Let_def truthy_def m t)
qed

lemma create_host_detailed:
  assumes "os_type p = Some os" "\<not> truthy (initiators p)" "detailed_initiators p = Some ds"
  shows "create_host p n a =
           (case send (Create_host n os
                         (map (\<lambda>d. \<lparr>req_port_name = port_name d,
                                    req_port_type = (case port_type d of
                                                       Some t \<Rightarrow> t
                                                     | None \<Rightarrow> classify (port_name d)),
                                    req_chap = Some (chap d)\<rparr>) ds)
                         (host_connectivity p)) a of
              (Some e, a') \<Rightarrow> (Inl (RemoteOperationError Op_create), a')
            | (None, a') \<Rightarrow> (Inr True, a'))"
proof -
  have m: "(\<lambda>initiator.
              \<lparr>req_port_name = port_name initiator,
               req_port_type =
                 (case port_type initiator of
                    Some t \<Rightarrow> t
                  | None \<Rightarrow>
                      if startswith (port_name initiator) ''iqn'' then ISCSI
                      else if startswith (port_name initiator) ''nqn'' then NVMe
                      else FC),
               req_chap = Some (chap initiator)\<rparr>)
           = (\<lambda>d. \<lparr>req_port_name = port_name d,
                      req_port_type = (case port_type d of
                                         Some t \<Rightarrow> t
                                       | None \<Rightarrow> classify (port_name d)),
                      req_chap = Some (chap d)\<rparr>)"
    by (rule ext) (simp add: classify_startswith split: option.splits)
  show ?thesis
    using assms
    by (simp add: create_host_def Let_def m)
qed

lemma add_host_initiators_issued:
  "issued a (snd (add_host_initiators p h a)) = []
   \<or> (\<exists>add_list. issued a (snd (add_host_initiators p h a))
         = [Modify_host (h_id h) (Some (add_list_with_type (detailed_initiators p) add_list))
              None None None])"
  by (auto simp: add_host_initiators_def send_def Let_def split: option.splits)

lemma alwt_port_type:
  "r \<in> set (add_list_with_type detailed add_list) \<Longrightarrow> req_port_type r = classify (req_port_name r)"
  by (auto simp: add_list_with_type_def classify_def startswith_prefix split: if_splits)

lemma alwt_chap:
  "r \<in> set (add_list_with_type detailed add_list) \<Longrightarrow>
   (if truthy detailed \<and> prefix ''iqn'' (req_port_name r)
    then \<exists>d \<in> set (case detailed of Some ds \<Rightarrow> ds | None \<Rightarrow> []).
           port_name d = req_port_name r \<and> req_chap r = Some (chap d)
    else req_chap r = None)"
  by (auto simp: add_list_with_type_def startswith_prefix split: if_splits)

lemma issued_send [simp]: "issued a (snd (send q a)) = [q]"
  by (simp add: send_def)

lemma snd_send_case:
  "snd (case send q a of (Some e, a') \<Rightarrow> (Inl (f e), a') | (None, a') \<Rightarrow> (Inr v, a'))
     = snd (send q a)"
  by (simp add: send_def split: option.splits)

lemma add_host_initiators_issued_eq:
  assumes "mutually_exclusive p" "truthy (initiators p) \<or> truthy (detailed_initiators p)"
  shows "issued a (snd (add_host_initiators p h a)) =
           (if set (requested_names p) \<subseteq> set (existing_names h) then []
            else [Modify_host (h_id h)
                    (Some (add_list_with_type (detailed_initiators p)
                             (get_add_initiators (existing_names h) (requested_names p))))
                    None None None])"
proof (cases "set (requested_names p) \<subseteq> set (existing_names h)")
  case True
  with add_host_initiators_noop [OF assms True, of a] show ?thesis by simp
next
  case False
  with add_host_initiators_send [OF assms False, of a] show ?thesis
    by (simp add: snd_send_case)
qed

lemma alwt_detailed_eq:
  assumes "ds \<noteq> []"
  shows "add_list_with_type (Some ds) add_list =
           concat (map (\<lambda>init.
                          map (\<lambda>d. \<lparr>req_port_name = init, req_port_type = classify init,
                                     req_chap = (if prefix ''iqn'' init then Some (chap d)
                                                 else None)\<rparr>)
                              (filter (\<lambda>d. init = port_name d) ds))
                       add_list)"
proof -
  have m: "\<And>init. (\<lambda>detailed_init.
                if startswith init ''iqn''
                then \<lparr>req_port_name = init, req_port_type = ISCSI,
                      req_chap = Some (chap detailed_init)\<rparr>
                else if startswith init ''nqn''
                then \<lparr>req_port_name = init, req_port_type = NVMe, req_chap = None\<rparr>
                else \<lparr>req_port_name = init, req_port_type = FC, req_chap = None\<rparr>)
           = (\<lambda>d. \<lparr>req_port_name = init, req_port_type = classify init,
                      req_chap = (if prefix ''iqn'' init then Some (chap d) else None)\<rparr>)"
    by (rule ext) (simp add: classify_def startswith_prefix)
  from assms have t: "truthy (Some ds)" by (simp add: truthy_def)
  show ?thesis
    unfolding add_list_with_type_def using t by (simp add: m)
qed

lemma sent_names:
  assumes "mutually_exclusive p" "truthy (initiators p) \<or> truthy (detailed_initiators p)"
  shows "req_port_name ` (\<Union>q \<in> set (issued a (snd (add_host_initiators p h a))).
                           set (request_initiators q))
           = set (requested_names p) - set (existing_names h)"
proof (cases "set (requested_names p) \<subseteq> set (existing_names h)")
  case True
  then show ?thesis by (auto simp: add_host_initiators_issued_eq [OF assms])
next
  case False
  have "req_port_name ` set (add_list_with_type (detailed_initiators p)
                               (get_add_initiators (existing_names h) (requested_names p)))
        = set (get_add_initiators (existing_names h) (requested_names p))"
    by (rule alwt_names_requested) (auto simp: set_get_add_initiators)
  with False show ?thesis
    by (simp add: add_host_initiators_issued_eq [OF assms] set_get_add_initiators)
qed

text \<open>
  C8: the classifier of the specification (prefix \<open>iqn\<close> gives iSCSI, else prefix
  \<open>nqn\<close> gives NVMe, else FC, with no other test on the string) is the test the source
  writes out, and it is what every site that infers a port type applies: \<open>create_host\<close>
  with \<open>initiators\<close>, \<open>create_host\<close> with \<open>detailed_initiators\<close> for the
  initiators whose \<open>port_type\<close> is not given, and \<open>add_host_initiators\<close> in both forms.
  At each site the theorem gives the request that is sent: for the add path, one request
  with an entry for every requested name that is not on the host, each with the port type
  the classifier gives for its name.
\<close>

theorem classification_rule_at_every_site:
  "classify s = (if startswith s ''iqn'' then ISCSI
                 else if startswith s ''nqn'' then NVMe else FC)
   \<and> (os_type p = Some os \<and> initiators p = Some xs \<and> xs \<noteq> [] \<longrightarrow>
        issued a (snd (create_host p n a)) =
          (if ISCSI \<in> classify ` set xs \<and> FC \<in> classify ` set xs \<and> NVMe \<in> classify ` set xs
           then []
           else [Create_host n os
                   (map (\<lambda>i. \<lparr>req_port_name = i, req_port_type = classify i,
                              req_chap = None\<rparr>) xs)
                   (host_connectivity p)]))
   \<and> (os_type p = Some os \<and> \<not> truthy (initiators p) \<and> detailed_initiators p = Some ds \<longrightarrow>
        issued a (snd (create_host p n a)) =
          [Create_host n os
             (map (\<lambda>d. \<lparr>req_port_name = port_name d,
                        req_port_type = (case port_type d of
                                           Some t \<Rightarrow> t
                                         | None \<Rightarrow> classify (port_name d)),
                        req_chap = Some (chap d)\<rparr>) ds)
             (host_connectivity p)])
   \<and> (\<forall>q \<in> set (issued a (snd (add_host_initiators p h a))).
         \<forall>r \<in> set (request_initiators q). req_port_type r = classify (req_port_name r))
   \<and> (initiators p = Some xs \<and> xs \<noteq> [] \<and> detailed_initiators p = None \<longrightarrow>
        issued a (snd (add_host_initiators p h a)) =
          (if set xs \<subseteq> set (existing_names h) then []
           else [Modify_host (h_id h)
                   (Some (map (\<lambda>i. \<lparr>req_port_name = i, req_port_type = classify i,
                                    req_chap = None\<rparr>)
                            (get_add_initiators (existing_names h) xs)))
                   None None None]))
   \<and> (initiators p = None \<and> detailed_initiators p = Some ds \<and> ds \<noteq> [] \<longrightarrow>
        issued a (snd (add_host_initiators p h a)) =
          (if set (map port_name ds) \<subseteq> set (existing_names h) then []
           else [Modify_host (h_id h)
                   (Some (concat (map (\<lambda>init.
                            map (\<lambda>d. \<lparr>req_port_name = init, req_port_type = classify init,
                                       req_chap = (if prefix ''iqn'' init then Some (chap d)
                                                   else None)\<rparr>)
                                (filter (\<lambda>d. init = port_name d) ds))
                            (get_add_initiators (existing_names h) (map port_name ds)))))
                   None None None]))"
proof (intro conjI impI)
  show "classify s = (if startswith s ''iqn'' then ISCSI
                      else if startswith s ''nqn'' then NVMe else FC)"
    by (rule classify_startswith)
next
  assume "os_type p = Some os \<and> initiators p = Some xs \<and> xs \<noteq> []"
  then show "issued a (snd (create_host p n a)) =
          (if ISCSI \<in> classify ` set xs \<and> FC \<in> classify ` set xs \<and> NVMe \<in> classify ` set xs
           then []
           else [Create_host n os
                   (map (\<lambda>i. \<lparr>req_port_name = i, req_port_type = classify i,
                              req_chap = None\<rparr>) xs)
                   (host_connectivity p)])"
    by (simp add: create_host_simple snd_send_case)
next
  assume "os_type p = Some os \<and> \<not> truthy (initiators p) \<and> detailed_initiators p = Some ds"
  then show "issued a (snd (create_host p n a)) =
          [Create_host n os
             (map (\<lambda>d. \<lparr>req_port_name = port_name d,
                        req_port_type = (case port_type d of
                                           Some t \<Rightarrow> t
                                         | None \<Rightarrow> classify (port_name d)),
                        req_chap = Some (chap d)\<rparr>) ds)
             (host_connectivity p)]"
    by (simp add: create_host_detailed snd_send_case)
next
  show "\<forall>q \<in> set (issued a (snd (add_host_initiators p h a))).
         \<forall>r \<in> set (request_initiators q). req_port_type r = classify (req_port_name r)"
    using add_host_initiators_issued [of a p h] by (auto dest: alwt_port_type)
next
  assume h: "initiators p = Some xs \<and> xs \<noteq> [] \<and> detailed_initiators p = None"
  then have m: "mutually_exclusive p" "truthy (initiators p) \<or> truthy (detailed_initiators p)"
    and r: "requested_names p = xs" and nt: "\<not> truthy (detailed_initiators p)"
    by (simp_all add: mutually_exclusive_def truthy_def requested_names_def)
  show "issued a (snd (add_host_initiators p h a)) =
          (if set xs \<subseteq> set (existing_names h) then []
           else [Modify_host (h_id h)
                   (Some (map (\<lambda>i. \<lparr>req_port_name = i, req_port_type = classify i,
                                    req_chap = None\<rparr>)
                            (get_add_initiators (existing_names h) xs)))
                   None None None])"
    unfolding add_host_initiators_issued_eq [OF m] r alwt_simple [OF nt] ..
next
  assume h: "initiators p = None \<and> detailed_initiators p = Some ds \<and> ds \<noteq> []"
  then have m: "mutually_exclusive p" "truthy (initiators p) \<or> truthy (detailed_initiators p)"
    and r: "requested_names p = map port_name ds" and d: "detailed_initiators p = Some ds"
    and ne: "ds \<noteq> []"
    by (simp_all add: mutually_exclusive_def truthy_def requested_names_def)
  show "issued a (snd (add_host_initiators p h a)) =
          (if set (map port_name ds) \<subseteq> set (existing_names h) then []
           else [Modify_host (h_id h)
                   (Some (concat (map (\<lambda>init.
                            map (\<lambda>d. \<lparr>req_port_name = init, req_port_type = classify init,
                                       req_chap = (if prefix ''iqn'' init then Some (chap d)
                                                   else None)\<rparr>)
                                (filter (\<lambda>d. init = port_name d) ds))
                            (get_add_initiators (existing_names h) (map port_name ds)))))
                   None None None])"
    unfolding add_host_initiators_issued_eq [OF m] r d alwt_detailed_eq [OF ne] ..
qed

theorem classification_rule_at_every_site_witness:
  "classify ''iqn.X'' = ISCSI \<and> classify ''nqn.X'' = NVMe
   \<and> classify ''21:00:00:24:ff:31:e9:fc'' = FC \<and> classify ''iqn'' = ISCSI \<and> classify [] = FC
   \<and> issued example_array
        (snd (create_host (task_h1\<lparr>os_type := Some ''Windows'',
                                    initiators := Some [''21:00:00:24:ff:31:e9:fc'']\<rparr>)
                ''h2'' example_array))
      = [Create_host ''h2'' ''Windows''
           [\<lparr>req_port_name = ''21:00:00:24:ff:31:e9:fc'', req_port_type = FC, req_chap = None\<rparr>]
           None]
   \<and> issued example_array
        (snd (create_host
                (task_h1\<lparr>os_type := Some ''Windows'',
                         detailed_initiators :=
                           Some [\<lparr>port_name = ''nqn.X'', port_type = None,
                                  chap = \<lparr>chap_single_username = None,
                                          chap_single_password = None,
                                          chap_mutual_username = None,
                                          chap_mutual_password = None\<rparr>\<rparr>]\<rparr>)
                ''h2'' example_array))
      = [Create_host ''h2'' ''Windows''
           [\<lparr>req_port_name = ''nqn.X'', req_port_type = NVMe,
             req_chap = Some \<lparr>chap_single_username = None, chap_single_password = None,
                              chap_mutual_username = None, chap_mutual_password = None\<rparr>\<rparr>]
           None]
   \<and> issued example_array
        (snd (add_host_initiators
                (task_h1\<lparr>initiators := Some [''iqn.a'', ''nqn.c''],
                         initiator_state := Some Present_in_host\<rparr>)
                host1 example_array))
      = [Modify_host ''id1''
           (Some [\<lparr>req_port_name = ''nqn.c'', req_port_type = NVMe, req_chap = None\<rparr>])
           None None None]
   \<and> issued example_array
        (snd (add_host_initiators
                (task_h1\<lparr>initiator_state := Some Present_in_host,
                         detailed_initiators :=
                           Some [\<lparr>port_name = ''21:00:00:24:ff:31:e9:fc'', port_type = None,
                                  chap = \<lparr>chap_single_username = None,
                                          chap_single_password = None,
                                          chap_mutual_username = None,
                                          chap_mutual_password = None\<rparr>\<rparr>]\<rparr>)
                host1 example_array))
      = [Modify_host ''id1''
           (Some [\<lparr>req_port_name = ''21:00:00:24:ff:31:e9:fc'', req_port_type = FC,
                   req_chap = None\<rparr>])
           None None None]"
proof -
  let ?p2 = "task_h1\<lparr>os_type := Some ''Windows'',
                      initiators := Some [''21:00:00:24:ff:31:e9:fc'']\<rparr>"
  let ?d = "\<lparr>port_name = ''nqn.X'', port_type = None,
             chap = \<lparr>chap_single_username = None, chap_single_password = None,
                     chap_mutual_username = None, chap_mutual_password = None\<rparr>\<rparr>"
  let ?p3 = "task_h1\<lparr>os_type := Some ''Windows'', detailed_initiators := Some [?d]\<rparr>"
  let ?p5 = "task_h1\<lparr>initiators := Some [''iqn.a'', ''nqn.c''],
                      initiator_state := Some Present_in_host\<rparr>"
  let ?e = "\<lparr>port_name = ''21:00:00:24:ff:31:e9:fc'', port_type = None,
             chap = \<lparr>chap_single_username = None, chap_single_password = None,
                     chap_mutual_username = None, chap_mutual_password = None\<rparr>\<rparr>"
  let ?p6 = "task_h1\<lparr>initiator_state := Some Present_in_host,
                      detailed_initiators := Some [?e]\<rparr>"
  note c = classification_rule_at_every_site [THEN conjunct1]
  have 1: "classify ''iqn.X'' = ISCSI" "classify ''nqn.X'' = NVMe"
    "classify ''21:00:00:24:ff:31:e9:fc'' = FC" "classify ''iqn'' = ISCSI" "classify [] = FC"
    by (simp_all add: c startswith_def)
  have h2: "os_type ?p2 = Some ''Windows'' \<and> initiators ?p2 = Some [''21:00:00:24:ff:31:e9:fc'']
            \<and> [''21:00:00:24:ff:31:e9:fc''] \<noteq> []"
    by (simp add: example_defs)
  note t2 = classification_rule_at_every_site
              [THEN conjunct2, THEN conjunct1, THEN mp, OF h2, of example_array "''h2''"]
  have 2: "issued example_array (snd (create_host ?p2 ''h2'' example_array))
           = [Create_host ''h2'' ''Windows''
                [\<lparr>req_port_name = ''21:00:00:24:ff:31:e9:fc'', req_port_type = FC,
                  req_chap = None\<rparr>] None]"
    using t2 1 by (simp add: example_defs)
  have h3: "os_type ?p3 = Some ''Windows'' \<and> \<not> truthy (initiators ?p3)
            \<and> detailed_initiators ?p3 = Some [?d]"
    by (simp add: example_defs truthy_def)
  note t3 = classification_rule_at_every_site
              [THEN conjunct2, THEN conjunct2, THEN conjunct1, THEN mp, OF h3,
               of example_array "''h2''"]
  have 3: "issued example_array (snd (create_host ?p3 ''h2'' example_array))
           = [Create_host ''h2'' ''Windows''
                [\<lparr>req_port_name = ''nqn.X'', req_port_type = NVMe,
                  req_chap = Some \<lparr>chap_single_username = None, chap_single_password = None,
                                   chap_mutual_username = None,
                                   chap_mutual_password = None\<rparr>\<rparr>] None]"
    using t3 1 by (simp add: example_defs)
  have h5: "initiators ?p5 = Some [''iqn.a'', ''nqn.c''] \<and> [''iqn.a'', ''nqn.c''] \<noteq> []
            \<and> detailed_initiators ?p5 = None"
    by (simp add: example_defs)
  note t5 = classification_rule_at_every_site
              [THEN conjunct2, THEN conjunct2, THEN conjunct2, THEN conjunct2, THEN conjunct1,
               THEN mp, OF h5, of example_array host1]
  have 5: "issued example_array (snd (add_host_initiators ?p5 host1 example_array))
           = [Modify_host ''id1''
                (Some [\<lparr>req_port_name = ''nqn.c'', req_port_type = NVMe, req_chap = None\<rparr>])
                None None None]"
    using t5 by (simp add: example_defs existing_names_def get_add_initiators_def
                   list_of_set_def classify_def)
  have h6: "initiators ?p6 = None \<and> detailed_initiators ?p6 = Some [?e] \<and> [?e] \<noteq> []"
    by (simp add: example_defs)
  note t6 = classification_rule_at_every_site
              [THEN conjunct2, THEN conjunct2, THEN conjunct2, THEN conjunct2, THEN conjunct2,
               THEN mp, OF h6, of example_array host1]
  have 6: "issued example_array (snd (add_host_initiators ?p6 host1 example_array))
           = [Modify_host ''id1''
                (Some [\<lparr>req_port_name = ''21:00:00:24:ff:31:e9:fc'', req_port_type = FC,
                        req_chap = None\<rparr>])
                None None None]"
    using t6 by (simp add: example_defs existing_names_def get_add_initiators_def
                   list_of_set_def classify_def)
  from 1 2 3 5 6 show ?thesis by (intro conjI)
qed

section \<open>Adding detailed initiators\<close>

lemma alwt_detailed_entry:
  assumes "r \<in> set (add_list_with_type (Some ds) add_list)" "ds \<noteq> []"
  shows "\<exists>d \<in> set ds. port_name d = req_port_name r
           \<and> req_port_type r = classify (port_name d)
           \<and> req_chap r = (if prefix ''iqn'' (port_name d) then Some (chap d) else None)"
proof -
  from assms obtain d where d: "d \<in> set ds"
    and r: "r = (if startswith (port_name d) ''iqn''
                 then \<lparr>req_port_name = port_name d, req_port_type = ISCSI,
                       req_chap = Some (chap d)\<rparr>
                 else if startswith (port_name d) ''nqn''
                 then \<lparr>req_port_name = port_name d, req_port_type = NVMe, req_chap = None\<rparr>
                 else \<lparr>req_port_name = port_name d, req_port_type = FC, req_chap = None\<rparr>)"
    by (auto simp: add_list_with_type_def truthy_def)
  show ?thesis
    by (rule bexI [OF _ d]) (simp add: r classify_def startswith_prefix)
qed

text \<open>
  A pass that adds three detailed initiators to \<open>h1\<close>: an IQN with CHAP credentials,
  a WWN that the playbook declares iSCSI and gives CHAP credentials, and an IQN that the
  playbook declares NVMe. The validation lets all three pass.
\<close>

lemma pass_add_detailed:
  "perform_module_operation
     (task_h1\<lparr>initiator_state := Some Present_in_host,
              detailed_initiators :=
                Some [\<lparr>port_name = ''iqn.c'', port_type = Some ISCSI,
              chap = \<lparr>chap_single_username = Some ''userA'',
                      chap_single_password = Some ''passwordA123'',
                      chap_mutual_username = None, chap_mutual_password = None\<rparr>\<rparr>,
                      \<lparr>port_name = ''21:00:00:24:ff:31:e9:fc'', port_type = Some ISCSI,
              chap = \<lparr>chap_single_username = Some ''userB'',
                      chap_single_password = Some ''passwordB123'',
                      chap_mutual_username = None, chap_mutual_password = None\<rparr>\<rparr>,
                      \<lparr>port_name = ''iqn.d'', port_type = Some NVMe,
              chap = \<lparr>chap_single_username = None, chap_single_password = None,
                      chap_mutual_username = None, chap_mutual_password = None\<rparr>\<rparr>]\<rparr>) example_array
   = (Inr (\<lparr>changed = True, host_details = Details (Some host1)\<rparr>, [(Step_add, True)]),
      example_array\<lparr>requests :=
        [Modify_host ''id1''
           (Some [\<lparr>req_port_name = ''iqn.c'', req_port_type = ISCSI,
                   req_chap = Some \<lparr>chap_single_username = Some ''userA'',
                                    chap_single_password = Some ''passwordA123'',
                                    chap_mutual_username = None,
                                    chap_mutual_password = None\<rparr>\<rparr>,
                  \<lparr>req_port_name = ''21:00:00:24:ff:31:e9:fc'', req_port_type = FC,
                   req_chap = None\<rparr>,
                  \<lparr>req_port_name = ''iqn.d'', req_port_type = ISCSI,
                   req_chap = Some \<lparr>chap_single_username = None,
                                    chap_single_password = None,
                                    chap_mutual_username = None,
                                    chap_mutual_password = None\<rparr>\<rparr>])
           None None None]\<rparr>)"
  by (simp add: pass_defs example_defs)

text \<open>
  C10: when \<open>add_host_initiators\<close> runs with \<open>detailed_initiators\<close>, it sends
  nothing if every name is on the host, and otherwise one request with, for every name
  to add and every detailed initiator of that name, an entry whose port type is the one
  the classifier gives for the name, whatever \<open>port_type\<close> the playbook wrote, and
  which has the CHAP keys of that detailed initiator if the name starts with \<open>iqn\<close> and
  no CHAP keys at all otherwise. The names sent are exactly the requested names that are
  not on the host.
\<close>

theorem add_detailed_recomputes_port_type:
  assumes "detailed_initiators p = Some ds" "ds \<noteq> []" "initiators p = None"
  shows "issued a (snd (add_host_initiators p h a)) =
           (if set (map port_name ds) \<subseteq> set (existing_names h) then []
            else [Modify_host (h_id h)
                    (Some (concat (map (\<lambda>init.
                             map (\<lambda>d. \<lparr>req_port_name = init, req_port_type = classify init,
                                        req_chap = (if prefix ''iqn'' init then Some (chap d)
                                                    else None)\<rparr>)
                                 (filter (\<lambda>d. init = port_name d) ds))
                             (get_add_initiators (existing_names h) (map port_name ds)))))
                    None None None])
         \<and> req_port_name ` (\<Union>q \<in> set (issued a (snd (add_host_initiators p h a))).
                               set (request_initiators q))
             = set (map port_name ds) - set (existing_names h)
         \<and> (\<forall>q \<in> set (issued a (snd (add_host_initiators p h a))).
               \<forall>r \<in> set (request_initiators q).
                 \<exists>d \<in> set ds. port_name d = req_port_name r
                   \<and> req_port_type r = classify (port_name d)
                   \<and> req_chap r = (if prefix ''iqn'' (port_name d) then Some (chap d)
                                    else None))"
proof (intro conjI)
  from assms have m: "mutually_exclusive p"
      "truthy (initiators p) \<or> truthy (detailed_initiators p)"
    and r: "requested_names p = map port_name ds"
    by (simp_all add: mutually_exclusive_def truthy_def requested_names_def)
  show "issued a (snd (add_host_initiators p h a)) =
           (if set (map port_name ds) \<subseteq> set (existing_names h) then []
            else [Modify_host (h_id h)
                    (Some (concat (map (\<lambda>init.
                             map (\<lambda>d. \<lparr>req_port_name = init, req_port_type = classify init,
                                        req_chap = (if prefix ''iqn'' init then Some (chap d)
                                                    else None)\<rparr>)
                                 (filter (\<lambda>d. init = port_name d) ds))
                             (get_add_initiators (existing_names h) (map port_name ds)))))
                    None None None])"
    unfolding add_host_initiators_issued_eq [OF m] r assms(1) alwt_detailed_eq [OF assms(2)] ..
  show "req_port_name ` (\<Union>q \<in> set (issued a (snd (add_host_initiators p h a))).
                               set (request_initiators q))
             = set (map port_name ds) - set (existing_names h)"
    unfolding sent_names [OF m] r ..
  show "\<forall>q \<in> set (issued a (snd (add_host_initiators p h a))).
               \<forall>r \<in> set (request_initiators q).
                 \<exists>d \<in> set ds. port_name d = req_port_name r
                   \<and> req_port_type r = classify (port_name d)
                   \<and> req_chap r = (if prefix ''iqn'' (port_name d) then Some (chap d)
                                    else None)"
  proof (intro ballI)
    fix q r
    assume q: "q \<in> set (issued a (snd (add_host_initiators p h a)))"
      and r: "r \<in> set (request_initiators q)"
    from add_host_initiators_issued [of a p h] q obtain add_list where
      "q = Modify_host (h_id h) (Some (add_list_with_type (detailed_initiators p) add_list))
             None None None"
      by auto
    with r assms(1) have "r \<in> set (add_list_with_type (Some ds) add_list)" by simp
    from alwt_detailed_entry [OF this assms(2)]
    show "\<exists>d \<in> set ds. port_name d = req_port_name r
            \<and> req_port_type r = classify (port_name d)
            \<and> req_chap r = (if prefix ''iqn'' (port_name d) then Some (chap d) else None)" .
  qed
qed

theorem add_detailed_recomputes_port_type_witness:
  "issued example_array
     (snd (add_host_initiators
             (task_h1\<lparr>initiator_state := Some Present_in_host,
              detailed_initiators :=
                Some [\<lparr>port_name = ''iqn.c'', port_type = Some ISCSI,
              chap = \<lparr>chap_single_username = Some ''userA'',
                      chap_single_password = Some ''passwordA123'',
                      chap_mutual_username = None, chap_mutual_password = None\<rparr>\<rparr>,
                      \<lparr>port_name = ''21:00:00:24:ff:31:e9:fc'', port_type = Some ISCSI,
              chap = \<lparr>chap_single_username = Some ''userB'',
                      chap_single_password = Some ''passwordB123'',
                      chap_mutual_username = None, chap_mutual_password = None\<rparr>\<rparr>,
                      \<lparr>port_name = ''iqn.d'', port_type = Some NVMe,
              chap = \<lparr>chap_single_username = None, chap_single_password = None,
                      chap_mutual_username = None, chap_mutual_password = None\<rparr>\<rparr>]\<rparr>) host1 example_array))
   = [Modify_host ''id1''
           (Some [\<lparr>req_port_name = ''iqn.c'', req_port_type = ISCSI,
                   req_chap = Some \<lparr>chap_single_username = Some ''userA'',
                                    chap_single_password = Some ''passwordA123'',
                                    chap_mutual_username = None,
                                    chap_mutual_password = None\<rparr>\<rparr>,
                  \<lparr>req_port_name = ''21:00:00:24:ff:31:e9:fc'', req_port_type = FC,
                   req_chap = None\<rparr>,
                  \<lparr>req_port_name = ''iqn.d'', req_port_type = ISCSI,
                   req_chap = Some \<lparr>chap_single_username = None,
                                    chap_single_password = None,
                                    chap_mutual_username = None,
                                    chap_mutual_password = None\<rparr>\<rparr>])
           None None None]
   \<and> perform_module_operation
        (task_h1\<lparr>initiator_state := Some Present_in_host,
              detailed_initiators :=
                Some [\<lparr>port_name = ''iqn.c'', port_type = Some ISCSI,
              chap = \<lparr>chap_single_username = Some ''userA'',
                      chap_single_password = Some ''passwordA123'',
                      chap_mutual_username = None, chap_mutual_password = None\<rparr>\<rparr>,
                      \<lparr>port_name = ''21:00:00:24:ff:31:e9:fc'', port_type = Some ISCSI,
              chap = \<lparr>chap_single_username = Some ''userB'',
                      chap_single_password = Some ''passwordB123'',
                      chap_mutual_username = None, chap_mutual_password = None\<rparr>\<rparr>,
                      \<lparr>port_name = ''iqn.d'', port_type = Some NVMe,
              chap = \<lparr>chap_single_username = None, chap_single_password = None,
                      chap_mutual_username = None, chap_mutual_password = None\<rparr>\<rparr>]\<rparr>) example_array
      = (Inr (\<lparr>changed = True, host_details = Details (Some host1)\<rparr>, [(Step_add, True)]),
         example_array\<lparr>requests :=
           [Modify_host ''id1''
           (Some [\<lparr>req_port_name = ''iqn.c'', req_port_type = ISCSI,
                   req_chap = Some \<lparr>chap_single_username = Some ''userA'',
                                    chap_single_password = Some ''passwordA123'',
                                    chap_mutual_username = None,
                                    chap_mutual_password = None\<rparr>\<rparr>,
                  \<lparr>req_port_name = ''21:00:00:24:ff:31:e9:fc'', req_port_type = FC,
                   req_chap = None\<rparr>,
                  \<lparr>req_port_name = ''iqn.d'', req_port_type = ISCSI,
                   req_chap = Some \<lparr>chap_single_username = None,
                                    chap_single_password = None,
                                    chap_mutual_username = None,
                                    chap_mutual_password = None\<rparr>\<rparr>])
           None None None]\<rparr>)"
proof -
  let ?dA = "\<lparr>port_name = ''iqn.c'', port_type = Some ISCSI,
              chap = \<lparr>chap_single_username = Some ''userA'',
                      chap_single_password = Some ''passwordA123'',
                      chap_mutual_username = None, chap_mutual_password = None\<rparr>\<rparr>"
  let ?dB = "\<lparr>port_name = ''21:00:00:24:ff:31:e9:fc'', port_type = Some ISCSI,
              chap = \<lparr>chap_single_username = Some ''userB'',
                      chap_single_password = Some ''passwordB123'',
                      chap_mutual_username = None, chap_mutual_password = None\<rparr>\<rparr>"
  let ?dC = "\<lparr>port_name = ''iqn.d'', port_type = Some NVMe,
              chap = \<lparr>chap_single_username = None, chap_single_password = None,
                      chap_mutual_username = None, chap_mutual_password = None\<rparr>\<rparr>"
  let ?p = "task_h1\<lparr>initiator_state := Some Present_in_host,
                     detailed_initiators := Some [?dA, ?dB, ?dC]\<rparr>"
  have d: "detailed_initiators ?p = Some [?dA, ?dB, ?dC]" "[?dA, ?dB, ?dC] \<noteq> []"
    "initiators ?p = None"
    by (simp_all add: task_h1_def)
  note t = add_detailed_recomputes_port_type [OF d, THEN conjunct1, of example_array host1]
  have 1: "issued example_array (snd (add_host_initiators ?p host1 example_array))
           = [Modify_host ''id1''
           (Some [\<lparr>req_port_name = ''iqn.c'', req_port_type = ISCSI,
                   req_chap = Some \<lparr>chap_single_username = Some ''userA'',
                                    chap_single_password = Some ''passwordA123'',
                                    chap_mutual_username = None,
                                    chap_mutual_password = None\<rparr>\<rparr>,
                  \<lparr>req_port_name = ''21:00:00:24:ff:31:e9:fc'', req_port_type = FC,
                   req_chap = None\<rparr>,
                  \<lparr>req_port_name = ''iqn.d'', req_port_type = ISCSI,
                   req_chap = Some \<lparr>chap_single_username = None,
                                    chap_single_password = None,
                                    chap_mutual_username = None,
                                    chap_mutual_password = None\<rparr>\<rparr>])
           None None None]"
    using t by (simp add: example_defs existing_names_def get_add_initiators_def
                  list_of_set_def classify_def)
  from 1 pass_add_detailed show ?thesis by (rule conjI)
qed

end
